theory Spec2Isabelle
  imports Complex_Main "HOL-Library.Sublist"
begin

section \<open>JavaScript values, exceptions and strings\<close>

text \<open>
  The site is written in JavaScript. An exception is a value of \<open>js_error\<close>; an
  expression that may throw has the type \<open>js_error + 'a\<close> (\<open>Inl\<close> is the throw), and
  \<open>try { ... } catch { ... }\<close> is the combinator \<open>try_catch\<close>. Strings are lists of
  characters; the line feed is the character with code 10.
\<close>

datatype js_error =
    TypeError
  | DOMSyntaxError
  | FetchRejected
  | JsonError
  | ConverterError
  | HttpError nat
  | ErrorMsg string

definition try_catch :: "js_error + 'a \<Rightarrow> (js_error \<Rightarrow> js_error + 'a) \<Rightarrow> js_error + 'a" where
  "try_catch body handler = (case body of Inl e \<Rightarrow> handler e | Inr v \<Rightarrow> Inr v)"

definition then_do :: "js_error + 'a \<Rightarrow> ('a \<Rightarrow> js_error + 'b) \<Rightarrow> js_error + 'b" where
  "then_do m f = (case m of Inl e \<Rightarrow> Inl e | Inr v \<Rightarrow> f v)"

abbreviation LF :: char where
  "LF \<equiv> CHR 0x0A"

text \<open>
  \<open>String.prototype.trim\<close> removes white space and line terminators from both ends.
  Among the characters with codes below 256 these are tab, line feed, vertical tab, form
  feed, carriage return, space and the no-break space.
\<close>

definition is_ws :: "char \<Rightarrow> bool" where
  "is_ws c = (c \<in> set [CHR 0x09, CHR 0x0A, CHR 0x0B, CHR 0x0C, CHR 0x0D, CHR 0x20, CHR 0xA0])"

definition trim :: "string \<Rightarrow> string" where
  "trim s = rev (dropWhile is_ws (rev (dropWhile is_ws s)))"

text \<open>
  \<open>s.split(c)\<close> for a one-character separator: the pieces between the separators, so a
  string without the separator gives one piece and the empty string gives \<open>['']\<close>.
\<close>

fun split_on :: "char \<Rightarrow> string \<Rightarrow> string list" where
  "split_on c [] = [[]]"
| "split_on c (x # xs) =
     (if x = c then [] # split_on c xs
      else (case split_on c xs of
              [] \<Rightarrow> [[x]]
            | piece # pieces \<Rightarrow> (x # piece) # pieces))"

text \<open>\<open>pieces.join(c)\<close>: the pieces with the separator between neighbours.\<close>

fun join_with :: "char \<Rightarrow> string list \<Rightarrow> string" where
  "join_with c [] = []"
| "join_with c [p] = p"
| "join_with c (p # q # ps) = p @ c # join_with c (q # ps)"

section \<open>The document parser (MarkdownParser)\<close>

record parsed_document =
  metadata :: "string \<rightharpoonup> string"
  content :: string

subsection \<open>splitFrontMatter\<close>

text \<open>
  The pattern is \<^verbatim>\<open>/^---\n([\s\S]*?)\n---\n([\s\S]*)$/\<close>, without flags: the input must
  begin with three hyphens and a line feed; the first group is lazy, so the matcher tries
  it with no character, then one, and so on, and stops at the first position from which
  a line feed, three hyphens and a line feed follow; the second group takes the rest.
  \<open>lazy_group\<close> is that search on the text after the opening fence.
\<close>

definition opening_fence :: string where
  "opening_fence = [CHR ''-'', CHR ''-'', CHR ''-'', LF]"

definition closing_fence :: string where
  "closing_fence = [LF, CHR ''-'', CHR ''-'', CHR ''-'', LF]"

fun lazy_group :: "string \<Rightarrow> (string \<times> string) option" where
  "lazy_group [] = None"
| "lazy_group (c # cs) =
     (if prefix closing_fence (c # cs) then Some ([], drop 5 (c # cs))
      else (case lazy_group cs of
              None \<Rightarrow> None
            | Some (block, rest) \<Rightarrow> Some (c # block, rest)))"

definition front_matter_match :: "string \<Rightarrow> (string \<times> string) option" where
  "front_matter_match markdown =
     (if prefix opening_fence markdown then lazy_group (drop 4 markdown) else None)"

definition splitFrontMatter :: "string \<Rightarrow> js_error + (string \<times> string)" where
  "splitFrontMatter markdown =
     try_catch
       (case front_matter_match markdown of
          Some (block, rest) \<Rightarrow> Inr (block, rest)
        | None \<Rightarrow> Inr ([], markdown))
       (\<lambda>e. Inr ([], markdown))"

subsection \<open>parseFrontMatter\<close>

text \<open>
  The metadata object is made by the literal \<open>{}\<close> and used as a dictionary from
  property names to strings: it is the map of its own properties. The assignment
  \<open>metadata[key] = value\<close> creates or overwrites the own property \<open>key\<close>, for every
  name but one: an object made by a literal inherits the accessor \<open>__proto__\<close> from
  \<open>Object.prototype\<close>, so an assignment to that name calls the inherited setter, which
  ignores a value that is a string, and no property is stored.
\<close>

definition obj_set :: "(string \<rightharpoonup> string) \<Rightarrow> string \<Rightarrow> string \<Rightarrow> (string \<rightharpoonup> string)" where
  "obj_set obj key v = (if key = ''__proto__'' then obj else obj(key \<mapsto> v))"

text \<open>
  One step of the \<open>forEach\<close> over the lines. The destructuring
  \<open>[key, ...values] = line.split(':')\<close> takes the first piece as the key and the rest as
  the values; \<open>key && values.length\<close> holds when the first piece is not the empty string
  and there is at least one further piece.
\<close>

definition front_matter_line :: "(string \<rightharpoonup> string) \<Rightarrow> string \<Rightarrow> (string \<rightharpoonup> string)" where
  "front_matter_line md line =
     (if trim line = [] then md
      else (case split_on (CHR '':'') line of
              [] \<Rightarrow> md
            | key # values \<Rightarrow>
                if key \<noteq> [] \<and> length values \<noteq> 0
                then obj_set md (trim key) (trim (join_with (CHR '':'') values))
                else md))"

definition parseFrontMatter :: "string \<Rightarrow> js_error + (string \<rightharpoonup> string)" where
  "parseFrontMatter frontMatter =
     try_catch
       (Inr (foldl front_matter_line Map.empty (split_on LF frontMatter)))
       (\<lambda>e. Inr Map.empty)"

subsection \<open>parseMarkdown and parseContent\<close>

text \<open>
  The converter \<open>marked.parse\<close> is an imported library: it is a parameter, a function
  from the prose to the markup that may throw.
\<close>

type_synonym converter = "string \<Rightarrow> js_error + string"

definition parseMarkdown :: "converter \<Rightarrow> string \<Rightarrow> js_error + string" where
  "parseMarkdown marked markdown = try_catch (marked markdown) (\<lambda>e. Inr markdown)"

definition parseContent :: "converter \<Rightarrow> string \<Rightarrow> js_error + parsed_document" where
  "parseContent marked markdown =
     try_catch
       (then_do (splitFrontMatter markdown) (\<lambda>(frontMatter, body).
        then_do (parseFrontMatter frontMatter) (\<lambda>md.
        then_do (parseMarkdown marked body) (\<lambda>html.
          Inr \<lparr>metadata = md, content = html\<rparr>))))
       (\<lambda>e. Inr \<lparr>metadata = Map.empty, content = []\<rparr>)"

subsection \<open>loadContent\<close>

text \<open>
  The network is a parameter. \<open>fetch(path)\<close> either rejects or resolves to a
  response with its \<open>ok\<close> flag, its status and the outcome of reading its body
  (\<open>response.text()\<close>, which may reject too). \<open>json_albumDirectories\<close> is what
  \<open>response.json()\<close> followed by \<open>.albumDirectories\<close> gives for a body: a throw
  when the body is not JSON, \<open>None\<close> when the property is undefined, or the list of
  identifiers.
\<close>

datatype fetch_result =
    Rejected js_error
  | Response bool nat "js_error + string"

record world =
  fetch :: "string \<Rightarrow> fetch_result"
  marked_parse :: converter
  json_albumDirectories :: "string \<Rightarrow> js_error + string list option"

text \<open>The result \<open>None\<close> is the \<open>null\<close> that \<open>loadContent\<close> returns from its handler.\<close>

definition loadContent :: "world \<Rightarrow> string \<Rightarrow> js_error + parsed_document option" where
  "loadContent w filepath =
     try_catch
       (case fetch w filepath of
          Rejected e \<Rightarrow> Inl e
        | Response ok status body \<Rightarrow>
            if \<not> ok then Inl (HttpError status)
            else then_do body (\<lambda>text.
                 then_do (parseContent (marked_parse w) text) (\<lambda>parsedContent.
                   Inr (Some parsedContent))))
       (\<lambda>e. Inr None)"

subsection \<open>The specification's reading of the parser\<close>

text \<open>
  The specification describes the fence pattern by lines: the input starts with a line
  of exactly three hyphens and has a later such line; the block is everything between the
  two, the body everything after the second.
\<close>

definition fence_line :: string where
  "fence_line = ''---''"

definition spec_fence_pattern :: "string \<Rightarrow> bool" where
  "spec_fence_pattern markdown =
     (case split_on LF markdown of
        [] \<Rightarrow> False
      | first # later \<Rightarrow> first = fence_line \<and> fence_line \<in> set later)"

definition spec_split :: "string \<Rightarrow> string \<times> string" where
  "spec_split markdown =
     (let later = tl (split_on LF markdown)
      in (join_with LF (takeWhile (\<lambda>l. l \<noteq> fence_line) later),
          join_with LF (tl (dropWhile (\<lambda>l. l \<noteq> fence_line) later))))"

text \<open>
  The specification's metadata entry of one line: a blank line gives none; otherwise the
  line is split on its first colon into the key and, when there is a colon, the value
  segment after it; with a non-empty key and a value segment the entry is the trimmed key
  with the trimmed segment, otherwise there is none.
\<close>

definition first_colon_split :: "string \<Rightarrow> string \<times> string option" where
  "first_colon_split line =
     (takeWhile (\<lambda>c. c \<noteq> CHR '':'') line,
      if CHR '':'' \<in> set line
      then Some (tl (dropWhile (\<lambda>c. c \<noteq> CHR '':'') line))
      else None)"

definition spec_entry :: "string \<Rightarrow> (string \<times> string) option" where
  "spec_entry line =
     (if trim line = [] then None
      else (case first_colon_split line of
              (key, None) \<Rightarrow> None
            | (key, Some segment) \<Rightarrow>
                if key = [] then None else Some (trim key, trim segment)))"

text \<open>
  The entries of the lines of a block that the metadata object stores: all but those
  under \<open>__proto__\<close>.
\<close>

definition stored_entries :: "string list \<Rightarrow> (string \<times> string) list" where
  "stored_entries ls = filter (\<lambda>(k, v). k \<noteq> ''__proto__'') (List.map_filter spec_entry ls)"

section \<open>The content store (ContentManager)\<close>

text \<open>
  \<open>albums\<close> and \<open>contentCache\<close> are JavaScript \<open>Map\<close>s, which iterate in the order of
  first insertion: a list of pairs, where \<open>set\<close> replaces the value of a key that is
  present, in place, and appends a new key at the end.
\<close>

fun map_set :: "('k \<times> 'v) list \<Rightarrow> 'k \<Rightarrow> 'v \<Rightarrow> ('k \<times> 'v) list" where
  "map_set [] k v = [(k, v)]"
| "map_set ((k', v') # m) k v =
     (if k' = k then (k, v) # m else (k', v') # map_set m k v)"

definition map_get :: "('k \<times> 'v) list \<Rightarrow> 'k \<Rightarrow> 'v option" where
  "map_get m k = map_of m k"

record content_manager =
  albums :: "(string \<times> parsed_document) list"
  contentCache :: "(string \<times> parsed_document) list"
  navSections :: "string list"

definition new_ContentManager :: content_manager where
  "new_ContentManager = \<lparr>albums = [], contentCache = [], navSections = []\<rparr>"

text \<open>
  A method that changes the manager returns the exception it ended with, if any, and the
  manager as it is then.
\<close>

definition loadAlbumData :: "world \<Rightarrow> string \<Rightarrow> js_error + parsed_document option" where
  "loadAlbumData w albumDir =
     try_catch
       (then_do (loadContent w (''content/albums/'' @ albumDir @ ''/info.md'')) (\<lambda>loaded.
          case loaded of
            None \<Rightarrow> Inl (ErrorMsg ''Album data parsing failed'')
          | Some albumData \<Rightarrow>
              Inr (Some (albumData\<lparr>metadata :=
                obj_set (obj_set (obj_set (metadata albumData)
                  ''coverPath'' (''content/albums/'' @ albumDir @ ''/cover.jpg''))
                  ''tracksDir'' (''content/albums/'' @ albumDir @ ''/tracks/''))
                  ''lyricsDir'' (''content/albums/'' @ albumDir @ ''/lyrics/'')\<rparr>))))
       (\<lambda>e. Inr None)"

fun discover_loop ::
  "world \<Rightarrow> string list \<Rightarrow> content_manager \<Rightarrow> js_error option \<times> content_manager" where
  "discover_loop w [] cm = (None, cm)"
| "discover_loop w (dir # dirs) cm =
     (case loadAlbumData w dir of
        Inl e \<Rightarrow> (Some e, cm)
      | Inr None \<Rightarrow> discover_loop w dirs cm
      | Inr (Some albumData) \<Rightarrow>
          discover_loop w dirs (cm\<lparr>albums := map_set (albums cm) dir albumData\<rparr>))"

text \<open>
  The index: the fetch, \<open>response.json()\<close> (the status is not looked at), the property
  \<open>albumDirectories\<close>, and its \<open>length\<close>, which throws when the property is undefined.
\<close>

definition album_index :: "world \<Rightarrow> js_error + string list" where
  "album_index w =
     (case fetch w ''content/albums/index.json'' of
        Rejected e \<Rightarrow> Inl e
      | Response ok status body \<Rightarrow>
          then_do body (\<lambda>text.
          then_do (json_albumDirectories w text) (\<lambda>albumDirs.
            case albumDirs of None \<Rightarrow> Inl TypeError | Some dirs \<Rightarrow> Inr dirs)))"

text \<open>The handler of \<open>discoverAlbums\<close> logs and throws the exception again.\<close>

definition discoverAlbums :: "world \<Rightarrow> content_manager \<Rightarrow> js_error option \<times> content_manager" where
  "discoverAlbums w cm =
     (case album_index w of
        Inl e \<Rightarrow> (Some e, cm)
      | Inr albumDirs \<Rightarrow> discover_loop w albumDirs cm)"

definition load_static_file :: "world \<Rightarrow> content_manager \<Rightarrow> string \<Rightarrow> content_manager" where
  "load_static_file w cm file =
     (case loadContent w (''content/'' @ file @ ''.md'') of
        Inl e \<Rightarrow> cm
      | Inr None \<Rightarrow> cm
      | Inr (Some doc) \<Rightarrow> cm\<lparr>contentCache := map_set (contentCache cm) file doc\<rparr>)"

definition staticFiles :: "string list" where
  "staticFiles = [''bio'', ''news'', ''home'']"

definition loadStaticContent :: "world \<Rightarrow> content_manager \<Rightarrow> content_manager" where
  "loadStaticContent w cm = foldl (load_static_file w) cm staticFiles"

section \<open>The page and the section renderer\<close>

text \<open>
  The page is the part of the DOM that the manager reads and writes. Elements are
  addresses. \<open>querySelector\<close> is \<open>document.querySelector\<close>, which throws on a selector
  that is not valid and gives \<open>None\<close> for \<open>null\<close>; \<open>child_query\<close> is the
  \<open>querySelector\<close> of an element, used with the two class selectors of the code;
  \<open>elem_children\<close> is what an element holds: assigning \<open>innerHTML\<close> replaces it,
  \<open>appendChild\<close> adds at the end. \<open>nav_hrefs\<close> are the \<open>href\<close> attributes of the
  navigation anchors, and \<open>body_overlays\<close> the overlays appended to the body.
\<close>

type_synonym elem = nat

record album_card =
  card_cover :: string
  card_title :: string
  card_release_date :: string
  card_track_count :: nat
  card_album :: string

record overlay =
  overlay_class :: string
  overlay_text :: string

datatype node =
    Markup string
  | AlbumCard album_card

record page =
  querySelector :: "string \<Rightarrow> js_error + elem option"
  child_query :: "elem \<Rightarrow> string \<Rightarrow> elem option"
  elem_children :: "elem \<Rightarrow> node list"
  body_overlays :: "overlay list"
  nav_hrefs :: "string option list"

text \<open>
  The renderer's messages to the console at the levels \<open>warn\<close> and \<open>error\<close> are
  returned with the page; the messages at the levels \<open>log\<close> and \<open>debug\<close> are left
  out.
\<close>

datatype log_level = LevelWarn | LevelError

type_synonym diagnostics = "(log_level \<times> string) list"

text \<open>A template literal prints a property that is not there as \<open>undefined\<close>.\<close>

definition interpolate :: "string option \<Rightarrow> string" where
  "interpolate v = (case v of None \<Rightarrow> ''undefined'' | Some s \<Rightarrow> s)"

text \<open>
  The values of the parser's metadata are strings, so \<open>metadata.tracks.length\<close> is the
  length of the string under \<open>tracks\<close>, and a \<open>TypeError\<close> when there is no such
  property: the card's template reads it without a guard.
\<close>

definition createAlbumElement :: "string \<Rightarrow> parsed_document \<Rightarrow> js_error + album_card" where
  "createAlbumElement dir albumData =
     (case metadata albumData ''tracks'' of
        None \<Rightarrow> Inl TypeError
      | Some tracks \<Rightarrow>
          Inr \<lparr>card_cover = interpolate (metadata albumData ''coverPath''),
               card_title = interpolate (metadata albumData ''title''),
               card_release_date = interpolate (metadata albumData ''release_date''),
               card_track_count = length tracks,
               card_album = dir\<rparr>)"

definition appendChild :: "elem \<Rightarrow> node \<Rightarrow> page \<Rightarrow> page" where
  "appendChild parent child pg =
     pg\<lparr>elem_children := (elem_children pg)(parent := elem_children pg parent @ [child])\<rparr>"

definition set_innerHTML :: "elem \<Rightarrow> string \<Rightarrow> page \<Rightarrow> page" where
  "set_innerHTML e html pg =
     pg\<lparr>elem_children := (elem_children pg)(e := (if html = [] then [] else [Markup html]))\<rparr>"

fun render_albums ::
  "(string \<times> parsed_document) list \<Rightarrow> elem \<Rightarrow> page \<Rightarrow> js_error option \<times> page" where
  "render_albums [] albumsGrid pg = (None, pg)"
| "render_albums ((dir, albumData) # rest) albumsGrid pg =
     (case createAlbumElement dir albumData of
        Inl e \<Rightarrow> (Some e, pg)
      | Inr albumElement \<Rightarrow>
          render_albums rest albumsGrid (appendChild albumsGrid (AlbumCard albumElement) pg))"

definition renderMusicCatalog ::
  "content_manager \<Rightarrow> elem \<Rightarrow> page \<Rightarrow> js_error option \<times> page \<times> diagnostics" where
  "renderMusicCatalog cm container pg =
     (case child_query pg container ''.albums-grid'' of
        None \<Rightarrow> (None, pg, [(LevelError, ''Albums grid container not found'')])
      | Some albumsGrid \<Rightarrow>
          (case render_albums (albums cm) albumsGrid (set_innerHTML albumsGrid [] pg) of
             (thrown, pg') \<Rightarrow> (thrown, pg', [])))"

definition renderStaticContent ::
  "content_manager \<Rightarrow> string \<Rightarrow> elem \<Rightarrow> page \<Rightarrow> page \<times> diagnostics" where
  "renderStaticContent cm type container pg =
     (case map_get (contentCache cm) type of
        None \<Rightarrow> (pg, [(LevelWarn, ''No cached content found for: '' @ type)])
      | Some doc \<Rightarrow>
          (case child_query pg container ''.markdown-content'' of
             None \<Rightarrow> (pg, [(LevelError, ''Content container not found for: '' @ type)])
           | Some contentDiv \<Rightarrow> (set_innerHTML contentDiv (content doc) pg, [])))"

text \<open>
  \<open>loadSection\<close>: the test for the empty identifier and the lookup of the container come
  before the \<open>try\<close>, so an exception of \<open>document.querySelector\<close> leaves the function;
  an exception of the \<open>switch\<close> is caught and logged.
\<close>

definition section_switch ::
  "content_manager \<Rightarrow> string \<Rightarrow> elem \<Rightarrow> page \<Rightarrow> js_error option \<times> page \<times> diagnostics" where
  "section_switch cm sectionId contentContainer pg =
     (if sectionId = ''music'' then renderMusicCatalog cm contentContainer pg
      else if sectionId = ''about'' then
        (case renderStaticContent cm ''bio'' contentContainer pg of (pg', d) \<Rightarrow> (None, pg', d))
      else if sectionId = ''news'' then
        (case renderStaticContent cm ''news'' contentContainer pg of (pg', d) \<Rightarrow> (None, pg', d))
      else if sectionId = ''home'' then
        (case renderStaticContent cm ''home'' contentContainer pg of (pg', d) \<Rightarrow> (None, pg', d))
      else (None, pg, [(LevelWarn, ''Unknown section: '' @ sectionId)]))"

definition loadSection ::
  "content_manager \<Rightarrow> string \<Rightarrow> page \<Rightarrow> js_error option \<times> page \<times> diagnostics" where
  "loadSection cm sectionId pg =
     (if sectionId = [] then (None, pg, [])
      else (case querySelector pg (CHR ''#'' # sectionId) of
              Inl e \<Rightarrow> (Some e, pg, [])
            | Inr None \<Rightarrow>
                (None, pg, [(LevelError, ''Section container not found: '' @ sectionId)])
            | Inr (Some contentContainer) \<Rightarrow>
                (case section_switch cm sectionId contentContainer pg of
                   (None, pg', d) \<Rightarrow> (None, pg', d)
                 | (Some e, pg', d) \<Rightarrow>
                     (None, pg', d @ [(LevelError, ''Error loading section '' @ sectionId)]))))"

subsection \<open>Navigation handlers and initialization\<close>

text \<open>
  \<open>setupNavigationHandlers\<close> binds a handler for the section named by each anchor:
  \<open>link.getAttribute('href').substring(1)\<close>, a \<open>TypeError\<close> for an anchor without the
  attribute. \<open>navSections\<close> are the sections bound so far.
\<close>

fun bind_links :: "string option list \<Rightarrow> content_manager \<Rightarrow> js_error option \<times> content_manager" where
  "bind_links [] cm = (None, cm)"
| "bind_links (href # links) cm =
     (case href of
        None \<Rightarrow> (Some TypeError, cm)
      | Some h \<Rightarrow> bind_links links (cm\<lparr>navSections := navSections cm @ [drop 1 h]\<rparr>))"

definition setupNavigationHandlers :: "page \<Rightarrow> content_manager \<Rightarrow> js_error option \<times> content_manager" where
  "setupNavigationHandlers pg cm = bind_links (nav_hrefs pg) cm"

text \<open>The handler of \<open>initialize\<close> logs and throws the exception again.\<close>

definition initialize ::
  "world \<Rightarrow> page \<Rightarrow> content_manager \<Rightarrow> js_error option \<times> content_manager" where
  "initialize w pg cm =
     (case discoverAlbums w cm of
        (Some e, cm1) \<Rightarrow> (Some e, cm1)
      | (None, cm1) \<Rightarrow> setupNavigationHandlers pg (loadStaticContent w cm1))"

subsection \<open>Lyrics\<close>

text \<open>
  \<open>loadLyrics\<close> reads \<open>content.content\<close> of what the loader returned; for \<open>null\<close>
  that is a \<open>TypeError\<close>, which its handler turns into the fixed text. The click handler
  of a lyrics button awaits it and shows the overlay; the overlay's template has its own
  close button, so binding the overlay's handlers does not throw.
\<close>

definition loadLyrics :: "world \<Rightarrow> string \<Rightarrow> js_error + string" where
  "loadLyrics w lyricsFile =
     try_catch
       (then_do (loadContent w lyricsFile) (\<lambda>loaded.
          case loaded of
            None \<Rightarrow> Inl TypeError
          | Some doc \<Rightarrow> Inr (content doc)))
       (\<lambda>e. Inr ''Lyrics not available'')"

definition showLyricsModal :: "string \<Rightarrow> page \<Rightarrow> page" where
  "showLyricsModal lyricsContent pg =
     pg\<lparr>body_overlays := body_overlays pg @
       [\<lparr>overlay_class = ''modal lyrics-modal'', overlay_text = lyricsContent\<rparr>]\<rparr>"

definition show_lyrics_click :: "world \<Rightarrow> string \<Rightarrow> page \<Rightarrow> js_error + page" where
  "show_lyrics_click w lyricsFile pg =
     then_do (loadLyrics w lyricsFile) (\<lambda>lyrics. Inr (showLyricsModal lyrics pg))"

section \<open>The playback widget (AudioPlayer)\<close>

subsection \<open>Numbers and formatTime\<close>

text \<open>
  A JavaScript number is \<open>NaN\<close>, an infinity, or a finite value, taken here as a
  rational (rounding of the division is not modelled). The argument of \<open>formatTime\<close> is
  any value: \<open>undefined\<close> and \<open>null\<close> convert to \<open>NaN\<close> and \<open>0\<close> under the
  arithmetic operators, and a symbol cannot be converted, which throws a \<open>TypeError\<close>.
\<close>

datatype jsnum = NaN | PosInfinity | NegInfinity | Finite rat

datatype jsval = Undefined | Null | Number jsnum | Symbol

definition to_number :: "jsval \<Rightarrow> js_error + jsnum" where
  "to_number v =
     (case v of
        Undefined \<Rightarrow> Inr NaN
      | Null \<Rightarrow> Inr (Finite 0)
      | Number n \<Rightarrow> Inr n
      | Symbol \<Rightarrow> Inl TypeError)"

text \<open>\<open>x / 60\<close> and \<open>x % 60\<close>; the remainder has the sign of the dividend.\<close>

definition div_60 :: "jsnum \<Rightarrow> jsnum" where
  "div_60 x = (case x of Finite q \<Rightarrow> Finite (q / 60) | other \<Rightarrow> other)"

definition truncate_rat :: "rat \<Rightarrow> int" where
  "truncate_rat q = (if 0 \<le> q then \<lfloor>q\<rfloor> else \<lceil>q\<rceil>)"

definition rem_60 :: "jsnum \<Rightarrow> jsnum" where
  "rem_60 x = (case x of Finite q \<Rightarrow> Finite (q - 60 * of_int (truncate_rat (q / 60))) | other \<Rightarrow> NaN)"

text \<open>\<open>Math.floor\<close> gives an integer, \<open>NaN\<close> or an infinity.\<close>

datatype jsfloor = FloorNaN | FloorPosInfinity | FloorNegInfinity | FloorInt int

definition math_floor :: "jsnum \<Rightarrow> jsfloor" where
  "math_floor x =
     (case x of
        NaN \<Rightarrow> FloorNaN
      | PosInfinity \<Rightarrow> FloorPosInfinity
      | NegInfinity \<Rightarrow> FloorNegInfinity
      | Finite q \<Rightarrow> FloorInt \<lfloor>q\<rfloor>)"

fun show_nat :: "nat \<Rightarrow> string" where
  "show_nat n =
     (if n < 10 then [''0123456789'' ! n]
      else show_nat (n div 10) @ [''0123456789'' ! (n mod 10)])"

declare show_nat.simps [simp del]

text \<open>
  The decimal text of a number, as the template literal and \<open>toString\<close> give it
  (the exponent notation of integers from \<open>10^21\<close> on is not modelled).
\<close>

definition number_toString :: "jsfloor \<Rightarrow> string" where
  "number_toString x =
     (case x of
        FloorNaN \<Rightarrow> ''NaN''
      | FloorPosInfinity \<Rightarrow> ''Infinity''
      | FloorNegInfinity \<Rightarrow> ''-Infinity''
      | FloorInt i \<Rightarrow> (if i < 0 then CHR ''-'' # show_nat (nat (- i)) else show_nat (nat i)))"

definition padStart2 :: "string \<Rightarrow> string" where
  "padStart2 s = replicate (2 - length s) (CHR ''0'') @ s"

definition formatTime :: "jsval \<Rightarrow> string" where
  "formatTime seconds =
     (case try_catch
             (then_do (to_number seconds) (\<lambda>x.
                Inr (number_toString (math_floor (div_60 x)) @ CHR '':'' #
                     padStart2 (number_toString (math_floor (rem_60 x))))))
             (\<lambda>e. Inr ''0:00'') of
        Inl e \<Rightarrow> ''0:00''
      | Inr formattedTime \<Rightarrow> formattedTime)"

subsection \<open>The widget\<close>

text \<open>
  The widget holds the elements it found in its shadow tree; one that was not found is
  \<open>None\<close>, and using it throws a \<open>TypeError\<close>, which the handlers of \<open>resetPlayer\<close>
  and \<open>loadTrack\<close> catch and log. The statements before the throw have taken effect.
\<close>

record audio_element =
  src :: string
  paused :: bool
  media_error :: "nat option"
  media_duration :: jsnum

record play_button =
  aria_label :: string
  class_playing :: bool

record audio_player =
  audio :: "audio_element option"
  playButton :: "play_button option"
  progress_width :: "string option"
  currentTime_text :: "string option"
  duration_text :: "string option"

definition resetPlayer :: "audio_player \<Rightarrow> audio_player" where
  "resetPlayer p =
     (case progress_width p of
        None \<Rightarrow> p
      | Some width \<Rightarrow>
          (let p1 = p\<lparr>progress_width := Some ''0%''\<rparr>
           in (case playButton p1 of
                 None \<Rightarrow> p1
               | Some button \<Rightarrow>
                   p1\<lparr>playButton := Some (button\<lparr>class_playing := False, aria_label := ''Play''\<rparr>)\<rparr>)))"

definition loadTrack :: "string \<Rightarrow> audio_player \<Rightarrow> audio_player" where
  "loadTrack trackUrl p =
     (case audio p of
        None \<Rightarrow> p
      | Some a \<Rightarrow> resetPlayer (p\<lparr>audio := Some (a\<lparr>src := trackUrl\<rparr>)\<rparr>))"

definition setDuration :: "audio_player \<Rightarrow> audio_player" where
  "setDuration p =
     (case audio p of
        None \<Rightarrow> p
      | Some a \<Rightarrow>
          (case duration_text p of
             None \<Rightarrow> p
           | Some old \<Rightarrow> p\<lparr>duration_text := Some (formatTime (Number (media_duration a)))\<rparr>))"

text \<open>
  The listeners of the audio element: the end of the media resets the player, the loaded
  metadata sets the duration text, and the other events modelled here only log.
\<close>

datatype audio_event = Ended | LoadedMetadata | Waiting | Playing | Pause

definition audio_listener :: "audio_event \<Rightarrow> audio_player \<Rightarrow> audio_player" where
  "audio_listener ev p =
     (case ev of
        Ended \<Rightarrow> resetPlayer p
      | LoadedMetadata \<Rightarrow> setDuration p
      | Waiting \<Rightarrow> p
      | Playing \<Rightarrow> p
      | Pause \<Rightarrow> p)"

section \<open>Concrete inputs\<close>

definition failing_converter :: converter where
  "failing_converter = (\<lambda>text. Inl ConverterError)"

definition plain_converter :: converter where
  "plain_converter = (\<lambda>text. Inr text)"

definition fenced_document :: string where
  "fenced_document = opening_fence @ ''title: A'' @ closing_fence @ ''body''"

definition adjacent_fences :: string where
  "adjacent_fences = ''---'' @ [LF] @ ''---'' @ [LF] @ ''body''"

definition proto_line :: string where
  "proto_line = ''__proto__: x''"

definition three_lines :: string where
  "three_lines = ''a: 1'' @ [LF] @ ''no colon'' @ [LF] @ '':x'' @ [LF] @ [LF] @ '' a :2:3 ''"

definition info_with_tracks :: string where
  "info_with_tracks =
     opening_fence @ ''title: A'' @ [LF] @ ''tracks: one, two'' @ closing_fence @ ''about A''"

definition demo_world :: world where
  "demo_world =
     \<lparr>fetch = (\<lambda>path.
        if path = ''content/albums/index.json'' then Response True 200 (Inr ''index'')
        else if path = ''content/albums/first/info.md'' then Response True 200 (Inr info_with_tracks)
        else if path = ''content/albums/third/info.md'' then Response True 200 (Inr fenced_document)
        else if path = ''content/bio.md'' then Response True 200 (Inr ''bio text'')
        else if path = ''content/news.md'' then Response True 200 (Inr ''news text'')
        else if path = ''content/home.md'' then Response True 200 (Inr ''home text'')
        else Response False 404 (Inr ''Not Found'')),
      marked_parse = plain_converter,
      json_albumDirectories = (\<lambda>text. Inr (Some [''first'', ''missing'', ''third'']))\<rparr>"

definition error_status_world :: world where
  "error_status_world =
     \<lparr>fetch = (\<lambda>path.
        if path = ''content/albums/index.json'' then Response False 500 (Inr ''index'')
        else fetch demo_world path),
      marked_parse = plain_converter,
      json_albumDirectories = (\<lambda>text. Inr (Some [''first'', ''missing'', ''third'']))\<rparr>"

definition offline_world :: world where
  "offline_world =
     \<lparr>fetch = (\<lambda>path. Rejected FetchRejected),
      marked_parse = plain_converter,
      json_albumDirectories = (\<lambda>text. Inl JsonError)\<rparr>"

definition demo_page :: page where
  "demo_page =
     \<lparr>querySelector = (\<lambda>selector.
        if selector = ''#home'' then Inr (Some 1)
        else if selector = ''#music'' then Inr (Some 2)
        else if selector = ''#about'' then Inr (Some 3)
        else if selector = ''#news'' then Inr (Some 4)
        else if selector = ''#featured'' then Inr (Some 5)
        else if selector = ''#1'' then Inl DOMSyntaxError
        else Inr None),
      child_query = (\<lambda>e selector.
        if selector = ''.markdown-content'' \<and> e \<in> set [1, 3, 4, 5] then Some (10 + e)
        else if selector = ''.albums-grid'' \<and> e = 2 then Some 20
        else None),
      elem_children = (\<lambda>e. [Markup ''placeholder'']),
      body_overlays = [],
      nav_hrefs = [Some ''#home'', Some ''#music'', Some ''#about'', Some ''#news'']\<rparr>"

definition first_album :: parsed_document where
  "first_album =
     \<lparr>metadata = [''title'' \<mapsto> ''A'', ''tracks'' \<mapsto> ''one, two'',
        ''coverPath'' \<mapsto> ''content/albums/first/cover.jpg'',
        ''tracksDir'' \<mapsto> ''content/albums/first/tracks/'',
        ''lyricsDir'' \<mapsto> ''content/albums/first/lyrics/''],
      content = ''about A''\<rparr>"

definition third_album :: parsed_document where
  "third_album =
     \<lparr>metadata = [''title'' \<mapsto> ''A'',
        ''coverPath'' \<mapsto> ''content/albums/third/cover.jpg'',
        ''tracksDir'' \<mapsto> ''content/albums/third/tracks/'',
        ''lyricsDir'' \<mapsto> ''content/albums/third/lyrics/''],
      content = ''body''\<rparr>"

definition plain_document :: "string \<Rightarrow> parsed_document" where
  "plain_document markdown = \<lparr>metadata = Map.empty, content = markdown\<rparr>"

definition busy_player :: audio_player where
  "busy_player =
     \<lparr>audio = Some \<lparr>src = ''old.mp3'', paused = False, media_error = Some 2,
                     media_duration = Finite 599\<rparr>,
      playButton = Some \<lparr>aria_label = ''Pause'', class_playing = True\<rparr>,
      progress_width = Some ''42%'',
      currentTime_text = Some ''4:11'',
      duration_text = Some ''9:59''\<rparr>"

section \<open>Properties of the document parser\<close>

subsection \<open>Strings\<close>

lemma split_on_not_Nil: "split_on c s \<noteq> []"
  by (induction s) (auto split: list.splits)

lemma join_split_on: "join_with c (split_on c s) = s"
proof (induction s)
  case Nil
  then show ?case by simp
next
  case (Cons x xs)
  show ?case
  proof (cases "x = c")
    case True
    then show ?thesis using Cons split_on_not_Nil[of c xs]
      by (cases "split_on c xs") auto
  next
    case False
    then show ?thesis using Cons split_on_not_Nil[of c xs]
      by (cases "split_on c xs"; cases "tl (split_on c xs)") auto
  qed
qed

lemma split_on_no_sep: "c \<notin> set s \<Longrightarrow> split_on c s = [s]"
  by (induction s) auto

lemma split_on_first:
  "c \<in> set s \<Longrightarrow>
   split_on c s = takeWhile (\<lambda>x. x \<noteq> c) s # split_on c (tl (dropWhile (\<lambda>x. x \<noteq> c) s))"
  by (induction s) auto

subsection \<open>The lazy search for the closing fence\<close>

lemma length_closing_fence: "length closing_fence = 5"
  by (simp add: closing_fence_def)

lemma prefix_closing_fence: "prefix closing_fence s \<longleftrightarrow> take 5 s = closing_fence"
proof
  assume "prefix closing_fence s"
  then obtain zs where "s = closing_fence @ zs" by (auto simp: prefix_def)
  then show "take 5 s = closing_fence" by (simp add: length_closing_fence)
next
  assume "take 5 s = closing_fence"
  then show "prefix closing_fence s" by (metis take_is_prefix)
qed

lemma lazy_group_Some:
  "lazy_group s = Some (b, r) \<Longrightarrow> s = b @ closing_fence @ r"
proof (induction s arbitrary: b r)
  case Nil
  then show ?case by simp
next
  case (Cons c cs)
  show ?case
  proof (cases "prefix closing_fence (c # cs)")
    case True
    with Cons.prems have br: "b = []" "r = drop 5 (c # cs)" by auto
    from True have "take 5 (c # cs) = closing_fence" by (simp only: prefix_closing_fence)
    then have "c # cs = closing_fence @ drop 5 (c # cs)" by (metis append_take_drop_id)
    with br show ?thesis by simp
  next
    case False
    then show ?thesis using Cons by (auto split: option.splits)
  qed
qed

lemma lazy_group_None: "lazy_group s = None \<longleftrightarrow> \<not> sublist closing_fence s"
proof (induction s)
  case Nil
  then show ?case by (simp add: closing_fence_def)
next
  case (Cons c cs)
  then show ?case by (auto simp: sublist_Cons_right split: option.splits)
qed

lemma lazy_group_first:
  "\<not> sublist closing_fence (b @ take 4 closing_fence) \<Longrightarrow>
   lazy_group (b @ closing_fence @ r) = Some (b, r)"
proof (induction b)
  case Nil
  then show ?case by (simp add: closing_fence_def)
next
  case (Cons c b)
  have "take 4 (b @ closing_fence @ r) = take 4 (b @ take 4 closing_fence)"
    by (simp add: length_closing_fence)
  then have "take 5 (c # b @ closing_fence @ r) = take 5 (c # b @ take 4 closing_fence)"
    by simp
  moreover have "\<not> prefix closing_fence (c # b @ take 4 closing_fence)"
    using Cons.prems by (auto simp: sublist_Cons_right)
  ultimately have np: "\<not> prefix closing_fence (c # b @ closing_fence @ r)"
    by (metis prefix_closing_fence)
  from Cons.prems have "\<not> sublist closing_fence (b @ take 4 closing_fence)"
    by (auto simp: sublist_Cons_right)
  then show ?case using Cons.IH np by simp
qed

subsection \<open>No step of the parser throws\<close>

lemma splitFrontMatter_returns:
  "splitFrontMatter markdown =
     Inr (case front_matter_match markdown of Some br \<Rightarrow> br | None \<Rightarrow> ([], markdown))"
  by (simp add: splitFrontMatter_def try_catch_def split: option.splits)

lemma parseFrontMatter_returns:
  "parseFrontMatter block = Inr (foldl front_matter_line Map.empty (split_on LF block))"
  by (simp add: parseFrontMatter_def try_catch_def)

lemma parseMarkdown_returns:
  "parseMarkdown marked body = Inr (case marked body of Inl e \<Rightarrow> body | Inr html \<Rightarrow> html)"
  by (simp add: parseMarkdown_def try_catch_def split: sum.splits)

lemma parseContent_returns:
  "splitFrontMatter markdown = Inr (block, body) \<Longrightarrow>
   parseContent marked markdown =
     Inr \<lparr>metadata = foldl front_matter_line Map.empty (split_on LF block),
          content = (case marked body of Inl e \<Rightarrow> body | Inr html \<Rightarrow> html)\<rparr>"
  by (simp add: parseContent_def then_do_def try_catch_def parseFrontMatter_returns
      parseMarkdown_returns)

lemma fenced_document_split:
  "splitFrontMatter fenced_document = Inr (''title: A'', ''body'')"
  by (simp add: fenced_document_def splitFrontMatter_returns front_matter_match_def
      opening_fence_def closing_fence_def)

text \<open>
  Claim C1. The parser is total: for every converter and every input string,
  \<open>parseContent\<close> returns a document and does not throw. When the converter throws on the
  body, the content of the result is the body as it was; and when moreover the input has
  no front matter, the result is the empty metadata with the raw input as its content.
  (On a string no step throws past its own handler, so the value of the outer handler,
  empty metadata with the empty string, is never the result.)
\<close>

theorem parseContent_total:
  "(\<exists>doc. parseContent marked markdown = Inr doc)
   \<and> (splitFrontMatter markdown = Inr (block, body) \<and> marked body = Inl e \<longrightarrow>
        (\<exists>md. parseFrontMatter block = Inr md
           \<and> parseContent marked markdown = Inr \<lparr>metadata = md, content = body\<rparr>))
   \<and> (front_matter_match markdown = None \<and> marked markdown = Inl e \<longrightarrow>
        parseContent marked markdown = Inr \<lparr>metadata = Map.empty, content = markdown\<rparr>)"
proof (intro conjI impI)
  obtain b r where "splitFrontMatter markdown = Inr (b, r)"
    by (cases "case front_matter_match markdown of Some br \<Rightarrow> br | None \<Rightarrow> ([], markdown)")
      (simp add: splitFrontMatter_returns)
  then show "\<exists>doc. parseContent marked markdown = Inr doc"
    by (simp add: parseContent_returns)
next
  assume "splitFrontMatter markdown = Inr (block, body) \<and> marked body = Inl e"
  then show "\<exists>md. parseFrontMatter block = Inr md
      \<and> parseContent marked markdown = Inr \<lparr>metadata = md, content = body\<rparr>"
    by (simp add: parseContent_returns parseFrontMatter_returns)
next
  assume a: "front_matter_match markdown = None \<and> marked markdown = Inl e"
  then have "splitFrontMatter markdown = Inr ([], markdown)"
    by (simp add: splitFrontMatter_returns)
  then show "parseContent marked markdown = Inr \<lparr>metadata = Map.empty, content = markdown\<rparr>"
    using a by (simp add: parseContent_returns front_matter_line_def trim_def)
qed

theorem parseContent_total_witness:
  "splitFrontMatter fenced_document = Inr (''title: A'', ''body'')
   \<and> failing_converter ''body'' = Inl ConverterError
   \<and> (\<exists>md. parseFrontMatter ''title: A'' = Inr md
         \<and> parseContent failing_converter fenced_document = Inr \<lparr>metadata = md, content = ''body''\<rparr>)
   \<and> front_matter_match ''plain text'' = None
   \<and> parseContent failing_converter ''plain text'' =
        Inr \<lparr>metadata = Map.empty, content = ''plain text''\<rparr>"
proof -
  have h1: "splitFrontMatter fenced_document = Inr (''title: A'', ''body'')
      \<and> failing_converter ''body'' = Inl ConverterError"
    by (simp add: fenced_document_split failing_converter_def)
  have h2: "front_matter_match ''plain text'' = None
      \<and> failing_converter ''plain text'' = Inl ConverterError"
    by (simp add: front_matter_match_def opening_fence_def failing_converter_def)
  show ?thesis
    using h1 h2
      parseContent_total[of failing_converter fenced_document "''title: A''" "''body''" ConverterError]
      parseContent_total[of failing_converter "''plain text''" "[]" "[]" ConverterError]
    by blast
qed

subsection \<open>The fence pattern\<close>

lemma take_4_closing_fence: "take 4 closing_fence = LF # fence_line"
  by (simp add: closing_fence_def fence_line_def)

lemma lazy_group_shortest:
  "lazy_group s = Some (b, r) \<Longrightarrow> \<not> sublist closing_fence (b @ take 4 closing_fence)"
proof (induction s arbitrary: b r)
  case Nil
  then show ?case by simp
next
  case (Cons c cs)
  show ?case
  proof (cases "prefix closing_fence (c # cs)")
    case True
    with Cons.prems have "b = []" by auto
    moreover have "\<not> sublist closing_fence (take 4 closing_fence)"
      using sublist_length_le[of closing_fence "take 4 closing_fence"]
      by (auto simp: length_closing_fence)
    ultimately show ?thesis by simp
  next
    case False
    with Cons.prems obtain b' where b': "lazy_group cs = Some (b', r)" "b = c # b'"
      by (auto split: option.splits)
    from b'(1) have cs: "cs = b' @ closing_fence @ r" by (rule lazy_group_Some)
    have "take 4 (b' @ closing_fence @ r) = take 4 (b' @ take 4 closing_fence)"
      by (simp add: length_closing_fence)
    then have "take 5 (c # cs) = take 5 (c # b' @ take 4 closing_fence)"
      using cs by simp
    with False have "\<not> prefix closing_fence (c # b' @ take 4 closing_fence)"
      by (metis prefix_closing_fence)
    moreover have "\<not> sublist closing_fence (b' @ take 4 closing_fence)"
      using Cons.IH[OF b'(1)] .
    ultimately show ?thesis using b'(2) by (simp add: sublist_Cons_right)
  qed
qed

text \<open>
  Claim C2, as stated, fails: the input of two adjacent fence lines followed by a body
  starts with a fence line and has a later fence line, so the specification takes the
  empty block and the text after the second fence; the pattern of the code needs a line
  feed of its own before the closing fence, does not match, and the whole input is the
  body.
\<close>

theorem splitFrontMatter_adjacent_fences_counterexample:
  "spec_fence_pattern adjacent_fences
   \<and> spec_split adjacent_fences = ([], ''body'')
   \<and> splitFrontMatter adjacent_fences = Inr ([], adjacent_fences)
   \<and> splitFrontMatter adjacent_fences \<noteq> Inr (spec_split adjacent_fences)"
  by (simp add: spec_fence_pattern_def spec_split_def adjacent_fences_def fence_line_def
      splitFrontMatter_returns front_matter_match_def opening_fence_def closing_fence_def)

text \<open>
  Claim C2, amended. The fence pattern of the code is: the input begins with three
  hyphens and a line feed, and the text after these four characters contains a line feed,
  three hyphens and a line feed. An input with this pattern is the opening fence, a
  block, the closing fence and a rest, where the block is the shortest possible (no
  closing fence begins inside the block); the parser takes that block as the metadata
  block and that rest as the body, and any such decomposition with the shortest block is
  the one the parser takes. For every input without the pattern the parser returns empty
  metadata and the converted whole input.
\<close>

theorem splitFrontMatter_regex:
  "(prefix opening_fence markdown \<and> sublist closing_fence (drop 4 markdown) \<longrightarrow>
      (\<exists>block rest. markdown = opening_fence @ block @ closing_fence @ rest
         \<and> \<not> sublist closing_fence (block @ LF # fence_line)
         \<and> splitFrontMatter markdown = Inr (block, rest)))
   \<and> (\<not> sublist closing_fence (block @ LF # fence_line) \<longrightarrow>
        splitFrontMatter (opening_fence @ block @ closing_fence @ rest) = Inr (block, rest)
        \<and> (\<exists>md html. parseFrontMatter block = Inr md \<and> parseMarkdown marked rest = Inr html
              \<and> parseContent marked (opening_fence @ block @ closing_fence @ rest) =
                   Inr \<lparr>metadata = md, content = html\<rparr>))
   \<and> (\<not> (prefix opening_fence markdown \<and> sublist closing_fence (drop 4 markdown)) \<longrightarrow>
        splitFrontMatter markdown = Inr ([], markdown)
        \<and> (\<exists>html. parseMarkdown marked markdown = Inr html
              \<and> parseContent marked markdown = Inr \<lparr>metadata = Map.empty, content = html\<rparr>))"
proof -
  have matched: "prefix opening_fence markdown \<and> sublist closing_fence (drop 4 markdown) \<longrightarrow>
      (\<exists>block rest. markdown = opening_fence @ block @ closing_fence @ rest
         \<and> \<not> sublist closing_fence (block @ LF # fence_line)
         \<and> splitFrontMatter markdown = Inr (block, rest))"
  proof (rule impI)
    assume a: "prefix opening_fence markdown \<and> sublist closing_fence (drop 4 markdown)"
    then obtain b r where br: "lazy_group (drop 4 markdown) = Some (b, r)"
      using lazy_group_None[of "drop 4 markdown"] by (cases "lazy_group (drop 4 markdown)") auto
    from a obtain zs where "markdown = opening_fence @ zs" by (auto simp: prefix_def)
    moreover have "length opening_fence = 4" by (simp add: opening_fence_def)
    ultimately have "markdown = opening_fence @ drop 4 markdown" by simp
    with lazy_group_Some[OF br] have "markdown = opening_fence @ b @ closing_fence @ r" by simp
    moreover have "\<not> sublist closing_fence (b @ LF # fence_line)"
      using lazy_group_shortest[OF br] by (simp add: take_4_closing_fence)
    moreover have "splitFrontMatter markdown = Inr (b, r)"
      using a br by (simp add: splitFrontMatter_returns front_matter_match_def)
    ultimately show "\<exists>block rest. markdown = opening_fence @ block @ closing_fence @ rest
        \<and> \<not> sublist closing_fence (block @ LF # fence_line)
        \<and> splitFrontMatter markdown = Inr (block, rest)"
      by blast
  qed
  have shortest: "\<not> sublist closing_fence (block @ LF # fence_line) \<longrightarrow>
      splitFrontMatter (opening_fence @ block @ closing_fence @ rest) = Inr (block, rest)
      \<and> (\<exists>md html. parseFrontMatter block = Inr md \<and> parseMarkdown marked rest = Inr html
            \<and> parseContent marked (opening_fence @ block @ closing_fence @ rest) =
                 Inr \<lparr>metadata = md, content = html\<rparr>)"
  proof (rule impI)
    assume "\<not> sublist closing_fence (block @ LF # fence_line)"
    then have "lazy_group (block @ closing_fence @ rest) = Some (block, rest)"
      using lazy_group_first[of block rest] by (simp add: take_4_closing_fence)
    moreover have "length opening_fence = 4" by (simp add: opening_fence_def)
    ultimately have sp:
      "splitFrontMatter (opening_fence @ block @ closing_fence @ rest) = Inr (block, rest)"
      by (simp add: splitFrontMatter_returns front_matter_match_def)
    then show "splitFrontMatter (opening_fence @ block @ closing_fence @ rest) = Inr (block, rest)
        \<and> (\<exists>md html. parseFrontMatter block = Inr md \<and> parseMarkdown marked rest = Inr html
              \<and> parseContent marked (opening_fence @ block @ closing_fence @ rest) =
                   Inr \<lparr>metadata = md, content = html\<rparr>)"
      by (simp add: parseContent_returns[OF sp] parseFrontMatter_returns parseMarkdown_returns)
  qed
  have absent: "\<not> (prefix opening_fence markdown \<and> sublist closing_fence (drop 4 markdown)) \<longrightarrow>
      splitFrontMatter markdown = Inr ([], markdown)
      \<and> (\<exists>html. parseMarkdown marked markdown = Inr html
            \<and> parseContent marked markdown = Inr \<lparr>metadata = Map.empty, content = html\<rparr>)"
  proof (rule impI)
    assume "\<not> (prefix opening_fence markdown \<and> sublist closing_fence (drop 4 markdown))"
    then have "front_matter_match markdown = None"
      by (auto simp: front_matter_match_def lazy_group_None)
    then have sp: "splitFrontMatter markdown = Inr ([], markdown)"
      by (simp add: splitFrontMatter_returns)
    then show "splitFrontMatter markdown = Inr ([], markdown)
        \<and> (\<exists>html. parseMarkdown marked markdown = Inr html
              \<and> parseContent marked markdown = Inr \<lparr>metadata = Map.empty, content = html\<rparr>)"
      by (simp add: parseContent_returns[OF sp] parseMarkdown_returns front_matter_line_def
          trim_def)
  qed
  show ?thesis
    by (rule conjI[OF matched conjI[OF shortest absent]])
qed

theorem splitFrontMatter_regex_witness:
  "prefix opening_fence fenced_document
   \<and> sublist closing_fence (drop 4 fenced_document)
   \<and> \<not> sublist closing_fence (''title: A'' @ LF # fence_line)
   \<and> splitFrontMatter fenced_document = Inr (''title: A'', ''body'')
   \<and> (\<exists>md. parseFrontMatter ''title: A'' = Inr md
         \<and> parseContent plain_converter fenced_document = Inr \<lparr>metadata = md, content = ''body''\<rparr>)
   \<and> \<not> (prefix opening_fence adjacent_fences \<and> sublist closing_fence (drop 4 adjacent_fences))
   \<and> parseContent plain_converter adjacent_fences =
        Inr \<lparr>metadata = Map.empty, content = adjacent_fences\<rparr>"
proof -
  have h1: "prefix opening_fence fenced_document \<and> sublist closing_fence (drop 4 fenced_document)"
    by (simp add: fenced_document_def opening_fence_def closing_fence_def sublist_code)
  have h2: "\<not> sublist closing_fence (''title: A'' @ LF # fence_line)"
    by (simp add: closing_fence_def fence_line_def sublist_code)
  have h3: "\<not> (prefix opening_fence adjacent_fences \<and> sublist closing_fence (drop 4 adjacent_fences))"
    by (simp add: adjacent_fences_def opening_fence_def closing_fence_def sublist_code)
  have d: "fenced_document = opening_fence @ ''title: A'' @ closing_fence @ ''body''"
    by (simp add: fenced_document_def)
  have p: "\<And>text. parseMarkdown plain_converter text = Inr text"
    by (simp add: parseMarkdown_returns plain_converter_def)
  show ?thesis
    using h1 h2 h3
      splitFrontMatter_regex[of fenced_document "''title: A''" "''body''" plain_converter, folded d]
      splitFrontMatter_regex[of adjacent_fences "''title: A''" "''body''" plain_converter, folded d]
    by (simp add: p)
qed

subsection \<open>The metadata block\<close>

lemma front_matter_line_spec:
  "front_matter_line md line =
     (case spec_entry line of None \<Rightarrow> md | Some (k, v) \<Rightarrow> obj_set md k v)"
proof (cases "CHR '':'' \<in> set line")
  case True
  then show ?thesis
    using split_on_not_Nil[of "CHR '':''" "tl (dropWhile (\<lambda>x. x \<noteq> CHR '':'') line)"]
    by (simp add: front_matter_line_def spec_entry_def first_colon_split_def
        split_on_first join_split_on)
next
  case False
  then show ?thesis
    by (simp add: front_matter_line_def spec_entry_def first_colon_split_def split_on_no_sep)
qed

lemma map_add_entry:
  "m(k \<mapsto> v) ++ map_of es = m ++ map_of (es @ [(k, v)])"
  by (rule ext) (simp add: map_add_def split: option.splits)

lemma stored_entries_Cons:
  "stored_entries (l # ls) =
     (case spec_entry l of
        None \<Rightarrow> stored_entries ls
      | Some (k, v) \<Rightarrow> if k = ''__proto__'' then stored_entries ls else (k, v) # stored_entries ls)"
  by (simp add: stored_entries_def map_filter_simps split: option.splits)

lemma foldl_front_matter_line:
  "foldl front_matter_line md ls = md ++ map_of (rev (stored_entries ls))"
proof (induction ls arbitrary: md)
  case Nil
  then show ?case by (simp add: stored_entries_def map_filter_simps)
next
  case (Cons l ls)
  have step: "foldl front_matter_line md (l # ls) =
      front_matter_line md l ++ map_of (rev (stored_entries ls))"
    using Cons.IH[of "front_matter_line md l"] by simp
  show ?case
  proof (cases "spec_entry l")
    case None
    then have "front_matter_line md l = md" by (simp add: front_matter_line_spec)
    with step None show ?thesis by (simp add: stored_entries_Cons)
  next
    case (Some kv)
    obtain k v where kv: "kv = (k, v)" by (cases kv)
    show ?thesis
    proof (cases "k = ''__proto__''")
      case True
      with Some kv have "front_matter_line md l = md"
        by (simp add: front_matter_line_spec obj_set_def)
      with step Some kv True show ?thesis by (simp add: stored_entries_Cons)
    next
      case False
      with Some kv have "front_matter_line md l = md(k \<mapsto> v)"
        by (simp add: front_matter_line_spec obj_set_def)
      then have "foldl front_matter_line md (l # ls) =
          md ++ map_of (rev (stored_entries ls) @ [(k, v)])"
        using step by (simp only: map_add_entry)
      moreover have "rev (stored_entries ls) @ [(k, v)] = rev (stored_entries (l # ls))"
        using Some kv False by (simp add: stored_entries_Cons)
      ultimately show ?thesis by simp
    qed
  qed
qed

text \<open>
  The metadata of a block is the map of the stored entries of its lines, a later entry
  overriding an earlier one with the same key. The entry of a line is the one the
  specification describes: none for a blank line; otherwise the line is split on its first
  colon, and with a key segment that is not the empty string and a value segment the
  entry is the trimmed key with the trimmed rest of the line after that colon; a line
  without a colon or with the empty key segment gives no entry, and the lines after it are
  still read. (The key segment is tested before it is trimmed: a segment of white space
  only is not empty, and its entry has the empty key.)
\<close>

lemma parseFrontMatter_entries:
  "parseFrontMatter block = Inr (map_of (rev (stored_entries (split_on LF block))))"
  by (simp add: parseFrontMatter_returns foldl_front_matter_line)

lemma parseFrontMatter_three_lines:
  "\<exists>md. parseFrontMatter three_lines = Inr md \<and> md ''a'' = Some ''2:3'' \<and> dom md = {''a''}"
proof -
  have "stored_entries (split_on LF three_lines) = [(''a'', ''1''), (''a'', ''2:3'')]"
    by (simp add: three_lines_def stored_entries_def map_filter_simps spec_entry_def
        first_colon_split_def trim_def is_ws_def)
  then show ?thesis
    using parseFrontMatter_entries[of three_lines] by (auto split: if_splits)
qed

text \<open>
  Claim C3 fails on the code at a line whose key is \<open>__proto__\<close>. The line is not
  blank, has a colon and a key that is not empty, so by the claim the entry of the trimmed
  key \<open>__proto__\<close> with the value \<open>x\<close> is recorded; the code assigns it to the
  metadata object, which stores nothing for that name, and the metadata is empty.
\<close>

theorem parseFrontMatter_proto_line:
  "spec_entry proto_line = Some (''__proto__'', ''x'')
   \<and> parseFrontMatter proto_line = Inr Map.empty"
proof -
  have "spec_entry proto_line = Some (''__proto__'', ''x'')"
    by (simp add: proto_line_def spec_entry_def first_colon_split_def trim_def is_ws_def)
  moreover have "split_on LF proto_line = [proto_line]"
    by (simp add: proto_line_def)
  ultimately show ?thesis
    by (simp add: parseFrontMatter_returns front_matter_line_spec obj_set_def)
qed

section \<open>Properties of the content store\<close>

subsection \<open>The loaders do not throw\<close>

lemma parseContent_Inr: "\<exists>doc. parseContent marked markdown = Inr doc"
proof -
  obtain b r where "splitFrontMatter markdown = Inr (b, r)"
    by (cases "case front_matter_match markdown of Some br \<Rightarrow> br | None \<Rightarrow> ([], markdown)")
      (simp add: splitFrontMatter_returns)
  then show ?thesis by (simp add: parseContent_returns)
qed

lemma loadContent_Inr: "\<exists>r. loadContent w path = Inr r"
proof (cases "fetch w path")
  case (Rejected e)
  then show ?thesis by (simp add: loadContent_def try_catch_def)
next
  case (Response ok status body)
  show ?thesis
  proof (cases body)
    case (Inl e)
    then show ?thesis using Response by (simp add: loadContent_def try_catch_def then_do_def)
  next
    case (Inr body_text)
    obtain doc where "parseContent (marked_parse w) body_text = Inr doc"
      using parseContent_Inr by blast
    then show ?thesis using Response Inr
      by (simp add: loadContent_def try_catch_def then_do_def)
  qed
qed

lemma loadContent_failed:
  "fetch w path = Rejected e \<Longrightarrow> loadContent w path = Inr None"
  "fetch w path = Response False status body \<Longrightarrow> loadContent w path = Inr None"
  "fetch w path = Response ok status (Inl e) \<Longrightarrow> loadContent w path = Inr None"
  by (simp_all add: loadContent_def try_catch_def then_do_def)

lemma loadAlbumData_Inr: "\<exists>r. loadAlbumData w dir = Inr r"
proof -
  obtain r where "loadContent w (''content/albums/'' @ dir @ ''/info.md'') = Inr r"
    using loadContent_Inr by blast
  then show ?thesis
    by (cases r) (simp_all add: loadAlbumData_def try_catch_def then_do_def)
qed

lemma loadAlbumData_None:
  "loadContent w (''content/albums/'' @ dir @ ''/info.md'') = Inr None \<Longrightarrow>
   loadAlbumData w dir = Inr None"
  by (simp add: loadAlbumData_def try_catch_def then_do_def)

lemma map_get_map_set:
  "map_get (map_set m k v) k' = (if k' = k then Some v else map_get m k')"
  by (induction m) (auto simp: map_get_def)

lemma discover_loop_albums:
  "\<exists>cm'. discover_loop w dirs cm = (None, cm')
     \<and> contentCache cm' = contentCache cm \<and> navSections cm' = navSections cm
     \<and> (\<forall>dir. map_get (albums cm') dir =
          (if dir \<in> set dirs
           then (case loadAlbumData w dir of Inr (Some a) \<Rightarrow> Some a | _ \<Rightarrow> map_get (albums cm) dir)
           else map_get (albums cm) dir))"
proof (induction dirs arbitrary: cm)
  case Nil
  then show ?case by simp
next
  case (Cons d ds)
  obtain r where r: "loadAlbumData w d = Inr r" using loadAlbumData_Inr by blast
  show ?case
  proof (cases r)
    case None
    with r Cons.IH[of cm] show ?thesis by auto
  next
    case (Some a)
    with r Cons.IH[of "cm\<lparr>albums := map_set (albums cm) d a\<rparr>"] show ?thesis
      by (auto simp: map_get_map_set split: sum.splits option.splits)
  qed
qed

lemma map_set_new: "k \<notin> fst ` set m \<Longrightarrow> map_set m k v = m @ [(k, v)]"
  by (induction m) auto

lemma discover_loop_order:
  "distinct dirs \<Longrightarrow> set dirs \<inter> fst ` set (albums cm) = {} \<Longrightarrow>
   map fst (albums (snd (discover_loop w dirs cm))) =
     map fst (albums cm) @ filter (\<lambda>dir. loadAlbumData w dir \<noteq> Inr None) dirs"
proof (induction dirs arbitrary: cm)
  case Nil
  then show ?case by simp
next
  case (Cons d ds)
  obtain r where r: "loadAlbumData w d = Inr r" using loadAlbumData_Inr by blast
  show ?case
  proof (cases r)
    case None
    with r Cons show ?thesis by auto
  next
    case (Some a)
    have new: "map_set (albums cm) d a = albums cm @ [(d, a)]"
      using Cons.prems by (intro map_set_new) auto
    have "set ds \<inter> fst ` set (albums (cm\<lparr>albums := map_set (albums cm) d a\<rparr>)) = {}"
      using Cons.prems new by auto
    with Cons.IH[of "cm\<lparr>albums := map_set (albums cm) d a\<rparr>"] Cons.prems r Some new
    show ?thesis by simp
  qed
qed

subsection \<open>A concrete site\<close>

lemma info_with_tracks_split:
  "splitFrontMatter info_with_tracks = Inr (''title: A'' @ [LF] @ ''tracks: one, two'', ''about A'')"
  by (simp add: info_with_tracks_def splitFrontMatter_returns front_matter_match_def
      opening_fence_def closing_fence_def)

lemma parse_info_with_tracks:
  "parseContent plain_converter info_with_tracks =
     Inr \<lparr>metadata = [''title'' \<mapsto> ''A'', ''tracks'' \<mapsto> ''one, two''], content = ''about A''\<rparr>"
  by (simp add: parseContent_returns[OF info_with_tracks_split] plain_converter_def
      front_matter_line_def obj_set_def trim_def is_ws_def)

lemma parse_fenced_document:
  "parseContent plain_converter fenced_document =
     Inr \<lparr>metadata = [''title'' \<mapsto> ''A''], content = ''body''\<rparr>"
  by (simp add: parseContent_returns[OF fenced_document_split] plain_converter_def
      front_matter_line_def obj_set_def trim_def is_ws_def)

lemma demo_first: "loadAlbumData demo_world ''first'' = Inr (Some first_album)"
  by (simp add: loadAlbumData_def loadContent_def demo_world_def try_catch_def then_do_def
      parse_info_with_tracks first_album_def obj_set_def)

lemma demo_third: "loadAlbumData demo_world ''third'' = Inr (Some third_album)"
  by (simp add: loadAlbumData_def loadContent_def demo_world_def try_catch_def then_do_def
      parse_fenced_document third_album_def obj_set_def)

lemma demo_missing: "loadAlbumData demo_world ''missing'' = Inr None"
  by (simp add: loadAlbumData_def loadContent_def demo_world_def try_catch_def then_do_def)

lemma demo_index: "album_index demo_world = Inr [''first'', ''missing'', ''third'']"
  by (simp add: album_index_def demo_world_def then_do_def)

lemma demo_discover:
  "discoverAlbums demo_world new_ContentManager =
     (None, new_ContentManager\<lparr>albums := [(''first'', first_album), (''third'', third_album)]\<rparr>)"
  by (simp add: discoverAlbums_def demo_index demo_first demo_third demo_missing
      new_ContentManager_def)

lemma first_card:
  "createAlbumElement ''first'' first_album =
     Inr \<lparr>card_cover = ''content/albums/first/cover.jpg'', card_title = ''A'',
          card_release_date = ''undefined'', card_track_count = 8, card_album = ''first''\<rparr>"
  by (simp add: createAlbumElement_def first_album_def interpolate_def)

lemma third_card: "createAlbumElement ''third'' third_album = Inl TypeError"
  by (simp add: createAlbumElement_def third_album_def)

lemma offline_index: "fetch offline_world ''content/albums/index.json'' = Rejected FetchRejected"
  by (simp add: offline_world_def)

text \<open>
  What holds of discovery. When the fetch of the album index rejects, \<open>initialize\<close> ends
  with that exception, and so it does when the index cannot be read (a body that cannot be
  read or is not JSON, no \<open>albumDirectories\<close>). When the index is read, discovery does
  not throw whatever happens to the single albums: an album whose info document cannot be
  fetched (a rejected fetch, a status that is not ok, a body that cannot be read) gives
  \<open>null\<close> and is skipped, the entry of its identifier stays as it was, and every
  identifier of the index whose document loads is stored with its album data.
\<close>

lemma discoverAlbums_isolation:
  "(fetch w ''content/albums/index.json'' = Rejected e \<longrightarrow> initialize w pg cm = (Some e, cm))
   \<and> (album_index w = Inl e \<longrightarrow> initialize w pg cm = (Some e, cm))
   \<and> ((fetch w (''content/albums/'' @ albumDir @ ''/info.md'') = Rejected e'
        \<or> fetch w (''content/albums/'' @ albumDir @ ''/info.md'') = Response False status body
        \<or> fetch w (''content/albums/'' @ albumDir @ ''/info.md'') = Response ok status (Inl e'))
       \<longrightarrow> loadAlbumData w albumDir = Inr None)
   \<and> (album_index w = Inr dirs \<longrightarrow>
        (\<exists>cm'. discoverAlbums w cm = (None, cm')
           \<and> (\<forall>dir. map_get (albums cm') dir =
                (if dir \<in> set dirs
                 then (case loadAlbumData w dir of
                         Inr (Some albumData) \<Rightarrow> Some albumData
                       | _ \<Rightarrow> map_get (albums cm) dir)
                 else map_get (albums cm) dir))))"
proof -
  have rejected: "fetch w ''content/albums/index.json'' = Rejected e \<longrightarrow>
      initialize w pg cm = (Some e, cm)"
    by (simp add: initialize_def discoverAlbums_def album_index_def)
  have index_failed: "album_index w = Inl e \<longrightarrow> initialize w pg cm = (Some e, cm)"
    by (simp add: initialize_def discoverAlbums_def)
  have skipped: "(fetch w (''content/albums/'' @ albumDir @ ''/info.md'') = Rejected e'
        \<or> fetch w (''content/albums/'' @ albumDir @ ''/info.md'') = Response False status body
        \<or> fetch w (''content/albums/'' @ albumDir @ ''/info.md'') = Response ok status (Inl e'))
       \<longrightarrow> loadAlbumData w albumDir = Inr None"
    using loadContent_failed[of w "''content/albums/'' @ albumDir @ ''/info.md''"]
      loadAlbumData_None[of w albumDir]
    by blast
  have continues: "album_index w = Inr dirs \<longrightarrow>
        (\<exists>cm'. discoverAlbums w cm = (None, cm')
           \<and> (\<forall>dir. map_get (albums cm') dir =
                (if dir \<in> set dirs
                 then (case loadAlbumData w dir of
                         Inr (Some albumData) \<Rightarrow> Some albumData
                       | _ \<Rightarrow> map_get (albums cm) dir)
                 else map_get (albums cm) dir)))"
  proof (rule impI)
    assume "album_index w = Inr dirs"
    then have "discoverAlbums w cm = discover_loop w dirs cm"
      by (simp add: discoverAlbums_def)
    then show "\<exists>cm'. discoverAlbums w cm = (None, cm')
           \<and> (\<forall>dir. map_get (albums cm') dir =
                (if dir \<in> set dirs
                 then (case loadAlbumData w dir of
                         Inr (Some albumData) \<Rightarrow> Some albumData
                       | _ \<Rightarrow> map_get (albums cm) dir)
                 else map_get (albums cm) dir))"
      using discover_loop_albums[of w dirs cm] by auto
  qed
  show ?thesis
    by (rule conjI[OF rejected conjI[OF index_failed conjI[OF skipped continues]]])
qed

lemma discoverAlbums_isolation_demo:
  "fetch offline_world ''content/albums/index.json'' = Rejected FetchRejected
   \<and> initialize offline_world demo_page new_ContentManager = (Some FetchRejected, new_ContentManager)
   \<and> fetch demo_world ''content/albums/missing/info.md'' = Response False 404 (Inr ''Not Found'')
   \<and> loadAlbumData demo_world ''missing'' = Inr None
   \<and> album_index demo_world = Inr [''first'', ''missing'', ''third'']
   \<and> (\<exists>cm'. discoverAlbums demo_world new_ContentManager = (None, cm')
         \<and> map_get (albums cm') ''first'' = Some first_album
         \<and> map_get (albums cm') ''missing'' = None
         \<and> map_get (albums cm') ''third'' = Some third_album)"
proof -
  have h: "fetch demo_world ''content/albums/missing/info.md'' = Response False 404 (Inr ''Not Found'')"
    by (simp add: demo_world_def)
  have e: "map_get (albums new_ContentManager) dir = None" for dir
    by (simp add: new_ContentManager_def map_get_def)
  show ?thesis
    using offline_index h demo_index
      discoverAlbums_isolation[of offline_world FetchRejected demo_page new_ContentManager
        "''missing''" FetchRejected]
      discoverAlbums_isolation[of demo_world FetchRejected demo_page new_ContentManager
        "''missing''" FetchRejected 404 "Inr ''Not Found''" True "[''first'', ''missing'', ''third'']"]
    by (auto simp: demo_first demo_third demo_missing e)
qed

text \<open>
  The later phases of \<open>initialize\<close> leave the albums as discovery stored them.
\<close>

lemma load_static_file_albums: "albums (load_static_file w cm file) = albums cm"
  by (simp add: load_static_file_def split: sum.splits option.splits)

lemma loadStaticContent_albums: "albums (loadStaticContent w cm) = albums cm"
  by (simp add: loadStaticContent_def staticFiles_def load_static_file_albums)

lemma bind_links_albums: "albums (snd (bind_links links cm)) = albums cm"
  by (induction links arbitrary: cm) (auto split: option.splits)

lemma initialize_albums:
  "albums (snd (initialize w pg cm)) = albums (snd (discoverAlbums w cm))"
proof (cases "discoverAlbums w cm")
  case (Pair thrown cm1)
  then show ?thesis
    by (cases thrown)
      (simp_all add: initialize_def setupNavigationHandlers_def bind_links_albums
        loadStaticContent_albums)
qed

subsection \<open>The index answered with an error status\<close>

lemma error_status_index:
  "album_index error_status_world = Inr [''first'', ''missing'', ''third'']"
  by (simp add: album_index_def error_status_world_def then_do_def)

lemma error_status_albums:
  "loadAlbumData error_status_world ''first'' = Inr (Some first_album)"
  "loadAlbumData error_status_world ''missing'' = Inr None"
  "loadAlbumData error_status_world ''third'' = Inr (Some third_album)"
  by (simp_all add: loadAlbumData_def loadContent_def error_status_world_def demo_world_def
      try_catch_def then_do_def parse_info_with_tracks parse_fenced_document first_album_def
      third_album_def obj_set_def)

lemma error_status_discover:
  "discoverAlbums error_status_world new_ContentManager =
     (None, new_ContentManager\<lparr>albums := [(''first'', first_album), (''third'', third_album)]\<rparr>)"
  by (simp add: discoverAlbums_def error_status_index error_status_albums
      new_ContentManager_def)

text \<open>
  Claim C4 fails on the code at an index whose fetch fails with an HTTP error. The first
  part of the claim holds: a single album that fails to load is skipped and discovery goes
  on. For the second part, the server answers the request for the index with the status
  500, so the response is not ok, and the body it sends can be read as an index. The
  loader of the documents, \<open>loadContent\<close>, tests \<open>response.ok\<close> and takes such a
  response for a failure; \<open>discoverAlbums\<close> does not look at the status, reads the body,
  and \<open>initialize\<close> ends without an exception, with the albums of that body stored.
\<close>

theorem initialize_index_error_status:
  "fetch error_status_world ''content/albums/index.json'' = Response False 500 (Inr ''index'')
   \<and> loadContent error_status_world ''content/albums/index.json'' = Inr None
   \<and> fst (initialize error_status_world demo_page new_ContentManager) = None
   \<and> albums (snd (initialize error_status_world demo_page new_ContentManager)) =
        [(''first'', first_album), (''third'', third_album)]"
proof -
  have f: "fetch error_status_world ''content/albums/index.json'' =
      Response False 500 (Inr ''index'')"
    by (simp add: error_status_world_def)
  then have l: "loadContent error_status_world ''content/albums/index.json'' = Inr None"
    by (simp add: loadContent_def try_catch_def)
  have "initialize error_status_world demo_page new_ContentManager =
      setupNavigationHandlers demo_page (loadStaticContent error_status_world
        (new_ContentManager\<lparr>albums := [(''first'', first_album), (''third'', third_album)]\<rparr>))"
    by (simp add: initialize_def error_status_discover)
  then have t: "fst (initialize error_status_world demo_page new_ContentManager) = None"
    by (simp add: setupNavigationHandlers_def demo_page_def)
  have a: "albums (snd (initialize error_status_world demo_page new_ContentManager)) =
      [(''first'', first_album), (''third'', third_album)]"
    by (simp add: initialize_albums error_status_discover)
  from f l t a show ?thesis by simp
qed

text \<open>
  The order of the stored albums: starting from a manager without the identifiers of the
  index, and with an index that names no identifier twice, the keys of \<open>albums\<close> after
  discovery are the keys before it followed by the identifiers whose album loaded, in
  the order of the index.
\<close>

lemma discoverAlbums_order:
  "album_index w = Inr dirs \<Longrightarrow> distinct dirs \<Longrightarrow> set dirs \<inter> fst ` set (albums cm) = {} \<Longrightarrow>
   map fst (albums (snd (discoverAlbums w cm))) =
     map fst (albums cm) @ filter (\<lambda>dir. loadAlbumData w dir \<noteq> Inr None) dirs"
  by (simp add: discoverAlbums_def discover_loop_order)

text \<open>
  A catalogue of albums that all carry a \<open>tracks\<close> entry is rendered with one card for
  each, in the order of \<open>albums\<close>.
\<close>

lemma render_albums_cards:
  "list_all (\<lambda>(dir, albumData). metadata albumData ''tracks'' \<noteq> None) stored \<Longrightarrow>
   \<exists>pg'. render_albums stored albumsGrid pg = (None, pg')
     \<and> length (elem_children pg' albumsGrid) =
         length (elem_children pg albumsGrid) + length stored"
proof (induction stored arbitrary: pg)
  case Nil
  then show ?case by simp
next
  case (Cons entry stored)
  obtain dir albumData where entry: "entry = (dir, albumData)" by (cases entry)
  with Cons.prems obtain tracks where "metadata albumData ''tracks'' = Some tracks" by auto
  then obtain card where card: "createAlbumElement dir albumData = Inr card"
    by (simp add: createAlbumElement_def)
  from Cons.prems have "list_all (\<lambda>(dir, albumData). metadata albumData ''tracks'' \<noteq> None) stored"
    by simp
  from Cons.IH[OF this, of "appendChild albumsGrid (AlbumCard card) pg"] entry card
  show ?case by (auto simp: appendChild_def)
qed

text \<open>
  Claim C5 fails on the code at an album without a \<open>tracks\<close> entry in its metadata.
  On the concrete site the index names three albums; the first and the third load and
  are stored in that order, the second is missing. The third has no \<open>tracks\<close> entry:
  the catalogue is cleared, the card of the first album is appended, the card of the third
  throws a \<open>TypeError\<close>, which \<open>loadSection\<close> catches and logs. Two albums are stored
  and one card is shown.
\<close>

theorem renderMusicCatalog_missing_tracks:
  "(case discoverAlbums demo_world new_ContentManager of
      (thrown, cm) \<Rightarrow>
        thrown = None \<and> map fst (albums cm) = [''first'', ''third'']
        \<and> (case loadSection cm ''music'' demo_page of
              (rejected, pg, messages) \<Rightarrow>
                rejected = None
                \<and> length (elem_children pg 20) = 1
                \<and> messages = [(LevelError, ''Error loading section music'')]))"
  by (simp add: demo_discover loadSection_def section_switch_def renderMusicCatalog_def
      demo_page_def first_card third_card set_innerHTML_def appendChild_def)

subsection \<open>The cache of static documents\<close>

lemma load_static_file_cache:
  "map_get (contentCache (load_static_file w cm file)) k =
     (if k = file
      then (case loadContent w (''content/'' @ file @ ''.md'') of
              Inr (Some doc) \<Rightarrow> Some doc
            | _ \<Rightarrow> map_get (contentCache cm) k)
      else map_get (contentCache cm) k)"
  by (simp add: load_static_file_def map_get_map_set split: sum.splits option.splits)

lemma loadStaticContent_cache:
  "name \<in> set staticFiles \<Longrightarrow> loadContent w (''content/'' @ name @ ''.md'') = Inr (Some doc) \<Longrightarrow>
   map_get (contentCache (loadStaticContent w cm)) name = Some doc"
  by (auto simp: loadStaticContent_def staticFiles_def load_static_file_cache)

lemma bind_links_cache:
  "contentCache (snd (bind_links links cm)) = contentCache cm"
  by (induction links arbitrary: cm) (auto split: option.splits)

lemma initialize_cache:
  assumes "initialize w pg cm = (None, cm')"
  shows "\<exists>cm1. contentCache cm' = contentCache (loadStaticContent w cm1)"
proof -
  obtain thrown cm1 where d: "discoverAlbums w cm = (thrown, cm1)"
    by (cases "discoverAlbums w cm")
  with assms have "thrown = None" by (cases thrown) (simp_all add: initialize_def)
  with assms d have "cm' = snd (bind_links (nav_hrefs pg) (loadStaticContent w cm1))"
    by (simp add: initialize_def setupNavigationHandlers_def)
  then show ?thesis using bind_links_cache by blast
qed

lemma section_document:
  "(sectionId, name) \<in> set [(''home'', ''home''), (''about'', ''bio''), (''news'', ''news'')] \<Longrightarrow>
   section_switch cm sectionId container pg =
     (case renderStaticContent cm name container pg of (pg', d) \<Rightarrow> (None, pg', d))"
  by (auto simp: section_switch_def)

lemma parse_plain:
  "\<not> prefix opening_fence markdown \<Longrightarrow>
   parseContent plain_converter markdown = Inr \<lparr>metadata = Map.empty, content = markdown\<rparr>"
proof -
  assume "\<not> prefix opening_fence markdown"
  then have "splitFrontMatter markdown = Inr ([], markdown)"
    by (simp add: splitFrontMatter_returns front_matter_match_def)
  then show ?thesis
    by (simp add: parseContent_returns plain_converter_def front_matter_line_def trim_def)
qed

lemma demo_static:
  "loadContent demo_world ''content/bio.md'' = Inr (Some (plain_document ''bio text''))"
  "loadContent demo_world ''content/news.md'' = Inr (Some (plain_document ''news text''))"
  "loadContent demo_world ''content/home.md'' = Inr (Some (plain_document ''home text''))"
  by (simp_all add: loadContent_def demo_world_def try_catch_def then_do_def parse_plain
      opening_fence_def plain_document_def)

lemma demo_initialize:
  "initialize demo_world demo_page new_ContentManager =
     (None, \<lparr>albums = [(''first'', first_album), (''third'', third_album)],
             contentCache = [(''bio'', plain_document ''bio text''),
               (''news'', plain_document ''news text''), (''home'', plain_document ''home text'')],
             navSections = [''home'', ''music'', ''about'', ''news'']\<rparr>)"
proof -
  have "initialize demo_world demo_page new_ContentManager =
      setupNavigationHandlers demo_page (loadStaticContent demo_world
        (new_ContentManager\<lparr>albums := [(''first'', first_album), (''third'', third_album)]\<rparr>))"
    by (simp add: initialize_def demo_discover)
  then show ?thesis
    by (simp add: loadStaticContent_def staticFiles_def load_static_file_def demo_static
        setupNavigationHandlers_def demo_page_def new_ContentManager_def)
qed

text \<open>
  Claim C6, as stated, fails for the section \<open>about\<close>: on the concrete site all three
  static documents load during initialization, and the cache then has the keys \<open>bio\<close>,
  \<open>news\<close> and \<open>home\<close>; there is nothing under \<open>about\<close>, whose document is held
  under \<open>bio\<close>.
\<close>

theorem static_cache_about_counterexample:
  "(case initialize demo_world demo_page new_ContentManager of
      (thrown, cm) \<Rightarrow>
        thrown = None
        \<and> loadContent demo_world ''content/bio.md'' = Inr (Some (plain_document ''bio text''))
        \<and> map fst (contentCache cm) = [''bio'', ''news'', ''home'']
        \<and> map_get (contentCache cm) ''about'' = None
        \<and> map_get (contentCache cm) ''bio'' = Some (plain_document ''bio text''))"
  by (simp add: demo_initialize demo_static map_get_def)

text \<open>
  Claim C6, amended. The cache is keyed by the name of the document: \<open>home\<close> for the
  section \<open>home\<close>, \<open>news\<close> for \<open>news\<close>, and \<open>bio\<close> for \<open>about\<close>. For each of
  the three, when the document \<open>content/<name>.md\<close> loads, the cache holds the parsed
  document under that name after \<open>loadStaticContent\<close>, and after an initialization that
  succeeds; and rendering the section looks the document up under that name: with the
  section's container and its content slot on the page, the slot gets the content of the
  document cached under the name, and without a document under the name the page is left
  as it is and a warning is logged.
\<close>

theorem static_cache_by_document_name:
  "(sectionId, name) \<in> set [(''home'', ''home''), (''about'', ''bio''), (''news'', ''news'')] \<Longrightarrow>
   (loadContent w (''content/'' @ name @ ''.md'') = Inr (Some doc) \<longrightarrow>
      map_get (contentCache (loadStaticContent w cm)) name = Some doc
      \<and> (\<forall>cm'. initialize w pg cm = (None, cm') \<longrightarrow> map_get (contentCache cm') name = Some doc))
   \<and> (querySelector pg (CHR ''#'' # sectionId) = Inr (Some container)
        \<and> child_query pg container ''.markdown-content'' = Some slot
        \<and> map_get (contentCache store) name = Some doc \<longrightarrow>
      loadSection store sectionId pg = (None, set_innerHTML slot (content doc) pg, []))
   \<and> (querySelector pg (CHR ''#'' # sectionId) = Inr (Some container)
        \<and> map_get (contentCache store) name = None \<longrightarrow>
      loadSection store sectionId pg =
        (None, pg, [(LevelWarn, ''No cached content found for: '' @ name)]))"
proof -
  assume sn: "(sectionId, name) \<in> set [(''home'', ''home''), (''about'', ''bio''), (''news'', ''news'')]"
  then have name: "name \<in> set staticFiles" and nonempty: "sectionId \<noteq> []"
    by (auto simp: staticFiles_def)
  have cached: "loadContent w (''content/'' @ name @ ''.md'') = Inr (Some doc) \<longrightarrow>
      map_get (contentCache (loadStaticContent w cm)) name = Some doc
      \<and> (\<forall>cm'. initialize w pg cm = (None, cm') \<longrightarrow> map_get (contentCache cm') name = Some doc)"
    using loadStaticContent_cache[OF name] initialize_cache[of w pg cm] by metis
  have rendered: "querySelector pg (CHR ''#'' # sectionId) = Inr (Some container)
        \<and> child_query pg container ''.markdown-content'' = Some slot
        \<and> map_get (contentCache store) name = Some doc \<longrightarrow>
      loadSection store sectionId pg = (None, set_innerHTML slot (content doc) pg, [])"
    using nonempty by (simp add: loadSection_def section_document[OF sn] renderStaticContent_def)
  have absent: "querySelector pg (CHR ''#'' # sectionId) = Inr (Some container)
        \<and> map_get (contentCache store) name = None \<longrightarrow>
      loadSection store sectionId pg =
        (None, pg, [(LevelWarn, ''No cached content found for: '' @ name)])"
    using nonempty by (simp add: loadSection_def section_document[OF sn] renderStaticContent_def)
  show ?thesis
    by (rule conjI[OF cached conjI[OF rendered absent]])
qed

theorem static_cache_by_document_name_witness:
  "(''about'', ''bio'') \<in> set [(''home'', ''home''), (''about'', ''bio''), (''news'', ''news'')]
   \<and> loadContent demo_world ''content/bio.md'' = Inr (Some (plain_document ''bio text''))
   \<and> map_get (contentCache (loadStaticContent demo_world new_ContentManager)) ''bio'' =
        Some (plain_document ''bio text'')
   \<and> querySelector demo_page ''#about'' = Inr (Some 3)
   \<and> child_query demo_page 3 ''.markdown-content'' = Some 13
   \<and> loadSection (snd (initialize demo_world demo_page new_ContentManager)) ''about'' demo_page =
        (None, set_innerHTML 13 ''bio text'' demo_page, [])
   \<and> loadSection new_ContentManager ''about'' demo_page =
        (None, demo_page, [(LevelWarn, ''No cached content found for: bio'')])"
proof -
  have q: "querySelector demo_page (CHR ''#'' # ''about'') = Inr (Some 3)"
    "child_query demo_page 3 ''.markdown-content'' = Some 13"
    by (simp_all add: demo_page_def)
  have c: "map_get (contentCache (snd (initialize demo_world demo_page new_ContentManager))) ''bio''
      = Some (plain_document ''bio text'')"
    "map_get (contentCache new_ContentManager) ''bio'' = None"
    by (simp_all add: demo_initialize map_get_def) (simp add: new_ContentManager_def)
  have t: "content (plain_document ''bio text'') = ''bio text''"
    by (simp add: plain_document_def)
  show ?thesis
    using q c t demo_static(1)
      static_cache_by_document_name[of "''about''" "''bio''" demo_world "plain_document ''bio text''"
        new_ContentManager demo_page 3 13 "snd (initialize demo_world demo_page new_ContentManager)"]
      static_cache_by_document_name[of "''about''" "''bio''" demo_world "plain_document ''bio text''"
        new_ContentManager demo_page 3 13 new_ContentManager]
    by simp
qed

section \<open>Properties of the section renderer\<close>

lemma section_switch_unknown:
  "sectionId \<notin> set [''music'', ''about'', ''news'', ''home''] \<Longrightarrow>
   section_switch cm sectionId container pg =
     (None, pg, [(LevelWarn, ''Unknown section: '' @ sectionId)])"
  by (simp add: section_switch_def)

text \<open>
  For an identifier that no element of the page carries, \<open>loadSection\<close> leaves the page
  as it is and throws nothing; its message is at the level \<open>error\<close>.
\<close>

lemma loadSection_no_container:
  "''contact'' \<notin> set [''music'', ''about'', ''news'', ''home'']
   \<and> loadSection new_ContentManager ''contact'' demo_page =
        (None, demo_page, [(LevelError, ''Section container not found: contact'')])"
  by (simp add: loadSection_def demo_page_def)

text \<open>
  What holds of unknown identifiers. The empty identifier is a no-op: nothing is changed,
  thrown or logged. An identifier other than \<open>music\<close>, \<open>about\<close>, \<open>news\<close> and
  \<open>home\<close> never changes the page; when the lookup of its container returns \<open>null\<close>,
  nothing is thrown and the message \<open>Section container not found\<close> is logged at the
  level \<open>error\<close>; when the lookup finds a container, nothing is thrown and the warning
  \<open>Unknown section\<close> is logged.
\<close>

lemma loadSection_unknown:
  "loadSection cm [] pg = (None, pg, [])
   \<and> (sectionId \<notin> set [''music'', ''about'', ''news'', ''home''] \<longrightarrow>
        fst (snd (loadSection cm sectionId pg)) = pg
        \<and> (sectionId \<noteq> [] \<and> querySelector pg (CHR ''#'' # sectionId) = Inr None \<longrightarrow>
             loadSection cm sectionId pg =
               (None, pg, [(LevelError, ''Section container not found: '' @ sectionId)]))
        \<and> (sectionId \<noteq> [] \<and> querySelector pg (CHR ''#'' # sectionId) = Inr (Some container) \<longrightarrow>
             loadSection cm sectionId pg =
               (None, pg, [(LevelWarn, ''Unknown section: '' @ sectionId)])))"
proof -
  have empty: "loadSection cm [] pg = (None, pg, [])"
    by (simp add: loadSection_def)
  have unknown: "sectionId \<notin> set [''music'', ''about'', ''news'', ''home''] \<longrightarrow>
        fst (snd (loadSection cm sectionId pg)) = pg
        \<and> (sectionId \<noteq> [] \<and> querySelector pg (CHR ''#'' # sectionId) = Inr None \<longrightarrow>
             loadSection cm sectionId pg =
               (None, pg, [(LevelError, ''Section container not found: '' @ sectionId)]))
        \<and> (sectionId \<noteq> [] \<and> querySelector pg (CHR ''#'' # sectionId) = Inr (Some container) \<longrightarrow>
             loadSection cm sectionId pg =
               (None, pg, [(LevelWarn, ''Unknown section: '' @ sectionId)]))"
  proof (rule impI)
    assume u: "sectionId \<notin> set [''music'', ''about'', ''news'', ''home'']"
    have sw: "section_switch cm sectionId c pg =
        (None, pg, [(LevelWarn, ''Unknown section: '' @ sectionId)])" for c
      using u by (rule section_switch_unknown)
    show "fst (snd (loadSection cm sectionId pg)) = pg
        \<and> (sectionId \<noteq> [] \<and> querySelector pg (CHR ''#'' # sectionId) = Inr None \<longrightarrow>
             loadSection cm sectionId pg =
               (None, pg, [(LevelError, ''Section container not found: '' @ sectionId)]))
        \<and> (sectionId \<noteq> [] \<and> querySelector pg (CHR ''#'' # sectionId) = Inr (Some container) \<longrightarrow>
             loadSection cm sectionId pg =
               (None, pg, [(LevelWarn, ''Unknown section: '' @ sectionId)]))"
      by (simp add: loadSection_def sw split: sum.splits option.splits)
  qed
  show ?thesis by (rule conjI[OF empty unknown])
qed

lemma loadSection_unknown_demo:
  "loadSection new_ContentManager [] demo_page = (None, demo_page, [])
   \<and> ''contact'' \<notin> set [''music'', ''about'', ''news'', ''home'']
   \<and> querySelector demo_page ''#contact'' = Inr None
   \<and> loadSection new_ContentManager ''contact'' demo_page =
        (None, demo_page, [(LevelError, ''Section container not found: contact'')])
   \<and> ''featured'' \<notin> set [''music'', ''about'', ''news'', ''home'']
   \<and> querySelector demo_page ''#featured'' = Inr (Some 5)
   \<and> loadSection new_ContentManager ''featured'' demo_page =
        (None, demo_page, [(LevelWarn, ''Unknown section: featured'')])"
proof -
  have q: "querySelector demo_page (CHR ''#'' # ''contact'') = Inr None"
    "querySelector demo_page (CHR ''#'' # ''featured'') = Inr (Some 5)"
    by (simp_all add: demo_page_def)
  show ?thesis
    using q
      loadSection_unknown[of new_ContentManager demo_page "''contact''" 5]
      loadSection_unknown[of new_ContentManager demo_page "''featured''" 5]
    by simp
qed

text \<open>
  Claim C7 fails on the code at an unknown identifier that does not make a valid selector.
  The identifier \<open>1\<close> is not empty and names no section; the code looks its container
  up with \<open>document.querySelector('#1')\<close>, and an identifier selector may not begin
  with a digit, so the lookup throws a \<open>SyntaxError\<close>. The lookup stands before the
  \<open>try\<close> of \<open>loadSection\<close>, whose handler would have caught and logged it: the
  exception leaves the function, the promise that \<open>loadSection\<close> returns is rejected,
  and the click handler that called it does not handle the rejection. Nothing is logged,
  and the page is not changed.
\<close>

theorem loadSection_lookup_throws:
  "''1'' \<notin> set [''music'', ''about'', ''news'', ''home'']
   \<and> querySelector demo_page ''#1'' = Inl DOMSyntaxError
   \<and> loadSection new_ContentManager ''1'' demo_page = (Some DOMSyntaxError, demo_page, [])"
  by (simp add: loadSection_def demo_page_def)

text \<open>
  Claim C10. When the loader returns \<open>null\<close> for the lyrics document, \<open>loadLyrics\<close>
  does not throw and returns the text \<open>Lyrics not available\<close>, and the click on the
  lyrics button still appends the lyrics overlay to the body, with that text as its
  content.
\<close>

theorem loadLyrics_not_available:
  "loadContent w lyricsFile = Inr None \<Longrightarrow>
   loadLyrics w lyricsFile = Inr ''Lyrics not available''
   \<and> show_lyrics_click w lyricsFile pg = Inr (showLyricsModal ''Lyrics not available'' pg)
   \<and> body_overlays (showLyricsModal ''Lyrics not available'' pg) =
        body_overlays pg @
          [\<lparr>overlay_class = ''modal lyrics-modal'', overlay_text = ''Lyrics not available''\<rparr>]"
  by (simp add: loadLyrics_def show_lyrics_click_def showLyricsModal_def try_catch_def
      then_do_def)

theorem loadLyrics_not_available_witness:
  "loadContent demo_world ''content/albums/first/lyrics/one.md'' = Inr None
   \<and> loadLyrics demo_world ''content/albums/first/lyrics/one.md'' = Inr ''Lyrics not available''
   \<and> (\<exists>pg. show_lyrics_click demo_world ''content/albums/first/lyrics/one.md'' demo_page = Inr pg
         \<and> body_overlays pg =
             [\<lparr>overlay_class = ''modal lyrics-modal'', overlay_text = ''Lyrics not available''\<rparr>])"
proof -
  have h: "loadContent demo_world ''content/albums/first/lyrics/one.md'' = Inr None"
    by (simp add: loadContent_def demo_world_def try_catch_def)
  have b: "body_overlays demo_page = []"
    by (simp add: demo_page_def)
  show ?thesis
    using h b loadLyrics_not_available[OF h, of demo_page] by simp
qed

section \<open>Properties of the playback widget\<close>

subsection \<open>formatTime\<close>

lemma formatTime_Symbol: "formatTime Symbol = ''0:00''"
  by (simp add: formatTime_def to_number_def try_catch_def then_do_def)

lemma show_nat_digit: "n < 10 \<Longrightarrow> show_nat n = [''0123456789'' ! n]"
  by (simp add: show_nat.simps)

lemma floor_div_60: "math_floor (div_60 (Finite (of_nat n))) = FloorInt (int (n div 60))"
  using floor_divide_of_nat_eq[of n 60, where ?'a = rat]
  by (simp add: math_floor_def div_60_def)

lemma floor_rem_60: "math_floor (rem_60 (Finite (of_nat n))) = FloorInt (int (n mod 60))"
proof -
  have "truncate_rat (of_nat n / 60) = int (n div 60)"
    using floor_divide_of_nat_eq[of n 60, where ?'a = rat] by (simp add: truncate_rat_def)
  moreover have "(of_nat n :: rat) - 60 * of_nat (n div 60) = of_nat (n mod 60)"
  proof -
    have "(of_nat (n mod 60) :: rat) = of_nat (n - 60 * (n div 60))"
      by (simp add: minus_mult_div_eq_mod)
    also have "\<dots> = of_nat n - of_nat (60 * (n div 60))"
      by (rule of_nat_diff) simp
    finally show ?thesis by simp
  qed
  ultimately have "rem_60 (Finite (of_nat n)) = Finite (of_nat (n mod 60))"
    by (simp add: rem_60_def)
  then show ?thesis by (simp add: math_floor_def)
qed

lemma number_toString_nat: "number_toString (FloorInt (int k)) = show_nat k"
  by (simp add: number_toString_def)

text \<open>
  Whole seconds. The bound keeps the duration where the division of the code, on doubles,
  has the same floor as the exact one, and far below the numbers that are printed with an
  exponent.
\<close>

lemma formatTime_whole_seconds:
  "n < 2 ^ 32 \<Longrightarrow>
   formatTime (Number (Finite (of_nat n))) =
     show_nat (n div 60) @ CHR '':'' # padStart2 (show_nat (n mod 60))"
  by (simp add: formatTime_def to_number_def try_catch_def then_do_def floor_div_60
      floor_rem_60 number_toString_nat)

lemma show_nat_small:
  "show_nat 0 = ''0''" "show_nat (Suc 0) = ''1''" "show_nat 5 = ''5''" "show_nat 9 = ''9''"
  by (simp_all add: show_nat_digit)

lemma show_nat_59: "show_nat 59 = ''59''"
  by (subst show_nat.simps) (simp add: show_nat_digit)

lemma formatTime_examples:
  "formatTime (Number (Finite 0)) = ''0:00''"
  "formatTime (Number (Finite 65)) = ''1:05''"
  "formatTime (Number (Finite 599)) = ''9:59''"
  using formatTime_whole_seconds[of 0] formatTime_whole_seconds[of 65]
    formatTime_whole_seconds[of 599]
  by (simp_all add: show_nat_small show_nat_59 padStart2_def)

lemma formatTime_truncates: "formatTime (Number (Finite (659 / 10))) = ''1:05''"
proof -
  have f: "\<lfloor>(659 :: rat) / 600\<rfloor> = 1" "\<lfloor>(59 :: rat) / 10\<rfloor> = 5"
    by (simp_all add: floor_eq_iff)
  show ?thesis
    by (simp add: formatTime_def to_number_def try_catch_def then_do_def div_60_def rem_60_def
        math_floor_def number_toString_def truncate_rat_def f show_nat_small padStart2_def)
qed

text \<open>
  Claim C8 fails on the code at a duration that is not a number: the arithmetic on
  \<open>NaN\<close> (and on \<open>undefined\<close>, which converts to it) does not throw, so the handler
  that returns \<open>0:00\<close> is not reached and the text is \<open>NaN:NaN\<close>.
\<close>

theorem formatTime_NaN:
  "formatTime (Number NaN) = ''NaN:NaN'' \<and> formatTime Undefined = ''NaN:NaN''"
  by (simp add: formatTime_def to_number_def try_catch_def then_do_def div_60_def rem_60_def
      math_floor_def number_toString_def padStart2_def)

subsection \<open>loadTrack and the end of the media\<close>

text \<open>
  Claim C9. For a widget that has its audio element, its button and its progress bar,
  whatever their state (playing or not, with a media error or not), \<open>loadTrack\<close> sets
  the source to the given address, the width of the progress bar to \<open>0%\<close> and the button
  to its paused appearance (no class \<open>playing\<close>, label \<open>Play\<close>), and changes nothing
  else; the listener for the end of the media makes the same reset of the bar and the
  button and leaves the audio element, and so its source, as it was.
\<close>

theorem loadTrack_resets:
  "audio p = Some a \<Longrightarrow> playButton p = Some button \<Longrightarrow> progress_width p = Some width \<Longrightarrow>
   loadTrack trackUrl p =
     p\<lparr>audio := Some (a\<lparr>src := trackUrl\<rparr>),
       progress_width := Some ''0%'',
       playButton := Some (button\<lparr>class_playing := False, aria_label := ''Play''\<rparr>)\<rparr>
   \<and> audio_listener Ended p =
     p\<lparr>progress_width := Some ''0%'',
       playButton := Some (button\<lparr>class_playing := False, aria_label := ''Play''\<rparr>)\<rparr>
   \<and> audio (audio_listener Ended p) = audio p"
  by (simp add: loadTrack_def audio_listener_def resetPlayer_def)

theorem loadTrack_resets_witness:
  "audio busy_player = Some \<lparr>src = ''old.mp3'', paused = False, media_error = Some 2,
                              media_duration = Finite 599\<rparr>
   \<and> playButton busy_player = Some \<lparr>aria_label = ''Pause'', class_playing = True\<rparr>
   \<and> progress_width busy_player = Some ''42%''
   \<and> map_option src (audio (loadTrack ''new.mp3'' busy_player)) = Some ''new.mp3''
   \<and> progress_width (loadTrack ''new.mp3'' busy_player) = Some ''0%''
   \<and> playButton (loadTrack ''new.mp3'' busy_player) =
        Some \<lparr>aria_label = ''Play'', class_playing = False\<rparr>
   \<and> map_option src (audio (audio_listener Ended busy_player)) = Some ''old.mp3''
   \<and> progress_width (audio_listener Ended busy_player) = Some ''0%''
   \<and> playButton (audio_listener Ended busy_player) =
        Some \<lparr>aria_label = ''Play'', class_playing = False\<rparr>"
proof -
  have h: "audio busy_player = Some \<lparr>src = ''old.mp3'', paused = False, media_error = Some 2,
                              media_duration = Finite 599\<rparr>"
    "playButton busy_player = Some \<lparr>aria_label = ''Pause'', class_playing = True\<rparr>"
    "progress_width busy_player = Some ''42%''"
    by (simp_all add: busy_player_def)
  show ?thesis
    using h loadTrack_resets[OF h, of "''new.mp3''"] by simp
qed

end
